theory Spec2Isabelle
  imports Main "HOL-Library.Word" "HOL-Library.Sublist"
begin

section \<open>Go strings\<close>

text \<open>
  A Go \<^verbatim>\<open>string\<close> is a sequence of bytes, modelled as \<^typ>\<open>string\<close>. A Go \<^verbatim>\<open>error\<close> is
  modelled by the text that \<^verbatim>\<open>err.Error()\<close> returns; \<^verbatim>\<open>fmt.Errorf("...: %w", err)\<close> and
  \<^verbatim>\<open>fmt.Sprintf("... %s", x)\<close> are written as concatenations.
\<close>

text \<open>\<^verbatim>\<open>strings.Contains(s, substr)\<close>: \<^verbatim>\<open>substr\<close> occurs in \<^verbatim>\<open>s\<close> as a contiguous block.\<close>

fun strings_Contains :: "string \<Rightarrow> string \<Rightarrow> bool" where
  "strings_Contains [] substr = (substr = [])"
| "strings_Contains (c # s) substr = (prefix substr (c # s) \<or> strings_Contains s substr)"

text \<open>
  \<^verbatim>\<open>strings.ToLower\<close>, on bytes: the letters \<^verbatim>\<open>A\<close> to \<^verbatim>\<open>Z\<close> are mapped to \<^verbatim>\<open>a\<close> to \<^verbatim>\<open>z\<close>, every
  other byte is kept. This is what Go computes on an ASCII string. (On other strings Go
  lowers whole code points; no code point outside ASCII is lowered to one of the letters of
  \<^verbatim>\<open>deleted\<close> or \<^verbatim>\<open>removed\<close>, the only words searched for in a lowered string.)
\<close>

definition toLowerByte :: "char \<Rightarrow> char" where
  "toLowerByte c =
     (let n = (of_char c :: nat)
      in if 65 \<le> n \<and> n \<le> 90 then char_of (n + 32) else c)"

definition strings_ToLower :: "string \<Rightarrow> string" where
  "strings_ToLower s = map toLowerByte s"

text \<open>\<^verbatim>\<open>strings.Join(elems, sep)\<close>.\<close>

fun strings_Join :: "string list \<Rightarrow> string \<Rightarrow> string" where
  "strings_Join [] sep = []"
| "strings_Join [e] sep = e"
| "strings_Join (e # es) sep = e @ sep @ strings_Join es sep"

text \<open>
  \<^verbatim>\<open>strings.Split(s, sep)\<close> for a separator of one byte (the code only splits at
  \<^verbatim>\<open>","\<close>): the pieces between the separators, so one piece more than there are
  separators; \<open>cur\<close> holds the piece being read, reversed.
\<close>

fun split_from :: "string \<Rightarrow> char \<Rightarrow> string \<Rightarrow> string list" where
  "split_from cur sep [] = [rev cur]"
| "split_from cur sep (c # s) =
     (if c = sep then rev cur # split_from [] sep s else split_from (c # cur) sep s)"

definition strings_Split :: "string \<Rightarrow> char \<Rightarrow> string list" where
  "strings_Split s sep = split_from [] sep s"

section \<open>The plugin framework's values\<close>

text \<open>
  \<^verbatim>\<open>types.String\<close>, \<^verbatim>\<open>types.Int32\<close> and \<^verbatim>\<open>types.Map\<close> of the plugin framework: a value is
  null, unknown or known. \<^verbatim>\<open>ValueString()\<close> returns the empty string when the value is
  not known.
\<close>

datatype tf_string = StringNull | StringUnknown | StringValue string

fun ValueString :: "tf_string \<Rightarrow> string" where
  "ValueString (StringValue s) = s"
| "ValueString StringNull = []"
| "ValueString StringUnknown = []"

datatype tf_int32 = Int32Null | Int32Unknown | Int32Value "32 word"

text \<open>
  A Go \<^verbatim>\<open>map[string]string\<close> is kept as the list of its entries (keys distinct); only its
  emptiness is inspected by the code modelled here.
\<close>

type_synonym metadata = "(string \<times> string) list"

datatype tf_map = MapNull | MapUnknown | MapValue metadata

text \<open>
  The conversion every operation applies to the metadata of a remote object:
  \<^verbatim>\<open>types.MapValueFrom\<close> when \<^verbatim>\<open>len(m) > 0\<close>, \<^verbatim>\<open>types.MapNull\<close> otherwise. The conversion of
  a string map to a map of \<^verbatim>\<open>types.StringType\<close> reports no diagnostics of its own; the check
  of the response that follows it in the code is \<open>conversionStops\<close> below.
\<close>

definition metadataMap :: "metadata \<Rightarrow> tf_map" where
  "metadataMap m = (if length m > 0 then MapValue m else MapNull)"

subsection \<open>Diagnostics\<close>

datatype severity = SeverityError | SeverityWarning

datatype diagnostic = Diagnostic (dseverity: severity) (summary: string) (detail: string)

type_synonym diagnostics = "diagnostic list"

text \<open>\<^verbatim>\<open>Diagnostics.Append\<close> skips a diagnostic that the collection already contains.\<close>

fun Append :: "diagnostics \<Rightarrow> diagnostics \<Rightarrow> diagnostics" where
  "Append ds [] = ds"
| "Append ds (d # more) = Append (if d \<in> set ds then ds else ds @ [d]) more"

definition HasError :: "diagnostics \<Rightarrow> bool" where
  "HasError ds = list_ex (\<lambda>d. dseverity d = SeverityError) ds"

definition Errors :: "diagnostics \<Rightarrow> diagnostics" where
  "Errors ds = filter (\<lambda>d. dseverity d = SeverityError) ds"

text \<open>
  The response of an operation, as the code uses it: the diagnostics collected so far and
  the state (the durable record). \<open>None\<close> is the null state: nothing stored yet, or the
  resource removed by \<^verbatim>\<open>State.RemoveResource\<close>. \<^verbatim>\<open>State.Set\<close> with a model of the
  resource's schema replaces the whole record and reports no diagnostics.
\<close>

record 'm response =
  Diagnostics :: diagnostics
  State :: "'m option"

definition AddError :: "string \<Rightarrow> string \<Rightarrow> 'm response \<Rightarrow> 'm response" where
  "AddError s d resp =
     resp\<lparr>Diagnostics := Append (Diagnostics resp) [Diagnostic SeverityError s d]\<rparr>"

definition AddWarning :: "string \<Rightarrow> string \<Rightarrow> 'm response \<Rightarrow> 'm response" where
  "AddWarning s d resp =
     resp\<lparr>Diagnostics := Append (Diagnostics resp) [Diagnostic SeverityWarning s d]\<rparr>"

definition AppendDiags :: "diagnostics \<Rightarrow> 'm response \<Rightarrow> 'm response" where
  "AppendDiags ds resp = resp\<lparr>Diagnostics := Append (Diagnostics resp) ds\<rparr>"

definition State_Set :: "'m \<Rightarrow> 'm response \<Rightarrow> 'm response" where
  "State_Set m resp = resp\<lparr>State := Some m\<rparr>"

definition State_RemoveResource :: "'m response \<Rightarrow> 'm response" where
  "State_RemoveResource resp = resp\<lparr>State := None\<rparr>"

text \<open>
  Inside the branch \<^verbatim>\<open>len(m) > 0\<close> the code appends the diagnostics of the conversion
  (none) to the response and returns, before any \<^verbatim>\<open>State.Set\<close>, when the response holds an
  error: \<^verbatim>\<open>if resp.Diagnostics.HasError() { return }\<close>. With empty metadata there is no such
  check.
\<close>

definition conversionStops :: "metadata \<Rightarrow> 'm response \<Rightarrow> bool" where
  "conversionStops m resp = (length m > 0 \<and> HasError (Diagnostics (AppendDiags [] resp)))"

text \<open>
  \<^verbatim>\<open>req.Plan.Get(ctx, &plan)\<close> (and the same on \<^verbatim>\<open>req.State\<close>, \<^verbatim>\<open>req.Config\<close>): the diagnostics of
  the conversion and the model it filled in.
\<close>

type_synonym 'm tfsdk_data = "diagnostics \<times> 'm"

section \<open>The gateway (package langfuse)\<close>

subsection \<open>Entities and requests\<close>

record Project =
  p_ID :: string
  p_Name :: string
  p_RetentionDays :: "32 word"
  p_Metadata :: metadata

record OrganizationMembership =
  om_ID :: string
  om_Email :: string
  om_Role :: string
  om_Status :: string
  om_UserID :: string
  om_Username :: string

text \<open>The entries of \<open>Emails\<close> are the pairs of \<^verbatim>\<open>value\<close> and \<^verbatim>\<open>primary\<close>.\<close>

record SCIMUserRequest =
  sq_UserName :: string
  sq_Emails :: "(string \<times> bool) list"
  sq_Password :: string
  sq_Active :: bool

record SCIMUserResponse =
  su_ID :: string
  su_UserName :: string
  su_Emails :: "(string \<times> bool) list"
  su_Active :: bool

record UpdateMembershipRequest =
  um_UserID :: string
  um_Email :: string
  um_Role :: string

record removeMemberResponse =
  rm_Success :: bool
  rm_Message :: string

subsection \<open>The interface \<^verbatim>\<open>OrganizationClient\<close>\<close>

text \<open>
  A call of the gateway takes the world \<open>'w\<close> (everything outside the adapter) and returns
  its result with the world after the call. A result \<^verbatim>\<open>(value, error)\<close> of Go is
  \<open>Inr value\<close> or \<open>Inl\<close> of the error's text. The interface is cut down to the methods
  that the operations modelled below call.
\<close>

record 'w OrganizationClient =
  GetProject :: "string \<Rightarrow> 'w \<Rightarrow> (string + Project) \<times> 'w"
  ListMemberships :: "'w \<Rightarrow> (string + OrganizationMembership list) \<times> 'w"
  GetMembership :: "string \<Rightarrow> 'w \<Rightarrow> (string + OrganizationMembership) \<times> 'w"
  UpdateMembership ::
    "string \<Rightarrow> UpdateMembershipRequest \<Rightarrow> 'w \<Rightarrow> (string + OrganizationMembership) \<times> 'w"
  RemoveMember :: "string \<Rightarrow> 'w \<Rightarrow> string option \<times> 'w"
  CreateSCIMUser :: "SCIMUserRequest \<Rightarrow> 'w \<Rightarrow> (string + SCIMUserResponse) \<times> 'w"

subsection \<open>HTTP\<close>

datatype request_body =
    NoBody
  | UpdateMembershipBody UpdateMembershipRequest
  | RemoveMemberBody string
  | SCIMUserBody SCIMUserRequest

record http_request =
  rq_method :: string
  rq_host :: string
  rq_path :: string
  rq_username :: string
  rq_password :: string
  rq_body :: request_body

text \<open>
  \<^verbatim>\<open>decodeResponse\<close>, \<^verbatim>\<open>buildBaseRequest\<close> and \<^verbatim>\<open>buildURL\<close> are defined in another file of
  the package, so a response is taken with what \<^verbatim>\<open>decodeResponse\<close> makes of it for each target type
  (an error text or the decoded value), and the remote side is a parameter:
  \<open>build_error\<close> is the error of \<^verbatim>\<open>buildBaseRequest\<close> for a method, host, path and body, if
  any, and \<open>Do\<close> is \<^verbatim>\<open>httpClient.Do\<close>: the answer to a request, which may depend on all the
  requests sent before it.
\<close>

record http_response =
  as_listProjectsResponse :: "string + Project list"
  as_listMembershipsResponse :: "string + OrganizationMembership list"
  as_OrganizationMembership :: "string + OrganizationMembership"
  as_removeMemberResponse :: "string + removeMemberResponse"
  as_SCIMUserResponse :: "string + SCIMUserResponse"

record remote =
  build_error :: "string \<Rightarrow> string \<Rightarrow> string \<Rightarrow> request_body \<Rightarrow> string option"
  Do :: "http_request list \<Rightarrow> http_request \<Rightarrow> string + http_response"

text \<open>The world of the HTTP gateway is the list of the requests sent so far.\<close>

type_synonym sent = "http_request list"

record organizationClientImpl =
  host :: string
  publicKey :: string
  privateKey :: string

definition NewOrganizationClient :: "string \<Rightarrow> string \<Rightarrow> string \<Rightarrow> organizationClientImpl" where
  "NewOrganizationClient h pub priv = \<lparr>host = h, publicKey = pub, privateKey = priv\<rparr>"

definition makeRequest ::
  "remote \<Rightarrow> organizationClientImpl \<Rightarrow> string \<Rightarrow> string \<Rightarrow> request_body \<Rightarrow> sent
     \<Rightarrow> (string + http_response) \<times> sent" where
  "makeRequest rem c methodType apiPath body w =
     (case build_error rem methodType (host c) apiPath body of
        Some err \<Rightarrow> (Inl err, w)
      | None \<Rightarrow>
          (let req = \<lparr>rq_method = methodType, rq_host = host c, rq_path = apiPath,
                      rq_username = publicKey c, rq_password = privateKey c, rq_body = body\<rparr>
           in case Do rem w req of
                Inl err \<Rightarrow> (Inl (''failed to make request: '' @ err), w @ [req])
              | Inr resp \<Rightarrow> (Inr resp, w @ [req])))"

subsection \<open>\<^verbatim>\<open>organizationClientImpl\<close>\<close>

definition impl_GetProject ::
  "remote \<Rightarrow> organizationClientImpl \<Rightarrow> string \<Rightarrow> sent \<Rightarrow> (string + Project) \<times> sent" where
  "impl_GetProject rem c projectID w =
     (case makeRequest rem c ''GET'' ''api/public/organizations/projects'' NoBody w of
        (Inl err, w1) \<Rightarrow> (Inl err, w1)
      | (Inr resp, w1) \<Rightarrow>
          (case as_listProjectsResponse resp of
             Inl err \<Rightarrow> (Inl err, w1)
           | Inr projects \<Rightarrow>
               (case find (\<lambda>proj. p_ID proj = projectID) projects of
                  Some proj \<Rightarrow> (Inr proj, w1)
                | None \<Rightarrow> (Inl (''cannot find project with ID '' @ projectID), w1))))"

definition impl_ListMemberships ::
  "remote \<Rightarrow> organizationClientImpl \<Rightarrow> sent \<Rightarrow> (string + OrganizationMembership list) \<times> sent" where
  "impl_ListMemberships rem c w =
     (case makeRequest rem c ''GET'' ''api/public/organizations/memberships'' NoBody w of
        (Inl err, w1) \<Rightarrow> (Inl err, w1)
      | (Inr resp, w1) \<Rightarrow>
          (case as_listMembershipsResponse resp of
             Inl err \<Rightarrow> (Inl err, w1)
           | Inr memberships \<Rightarrow> (Inr memberships, w1)))"

definition impl_GetMembership ::
  "remote \<Rightarrow> organizationClientImpl \<Rightarrow> string \<Rightarrow> sent
     \<Rightarrow> (string + OrganizationMembership) \<times> sent" where
  "impl_GetMembership rem c membershipID w =
     (case impl_ListMemberships rem c w of
        (Inl err, w1) \<Rightarrow> (Inl err, w1)
      | (Inr memberships, w1) \<Rightarrow>
          (case find (\<lambda>membership. om_ID membership = membershipID
                                  \<or> om_UserID membership = membershipID) memberships of
             Some membership \<Rightarrow> (Inr membership, w1)
           | None \<Rightarrow> (Inl (''cannot find membership with ID '' @ membershipID), w1)))"

definition impl_UpdateMembership ::
  "remote \<Rightarrow> organizationClientImpl \<Rightarrow> string \<Rightarrow> UpdateMembershipRequest \<Rightarrow> sent
     \<Rightarrow> (string + OrganizationMembership) \<times> sent" where
  "impl_UpdateMembership rem c membershipID request w =
     (case impl_GetMembership rem c membershipID w of
        (Inl err, w1) \<Rightarrow> (Inl (''failed to get current membership: '' @ err), w1)
      | (Inr currentMembership, w1) \<Rightarrow>
          (let userIDToUpdate =
                 (if um_UserID request = [] then om_UserID currentMembership
                  else um_UserID request);
               updateRequest =
                 \<lparr>um_UserID = userIDToUpdate, um_Email = [], um_Role = um_Role request\<rparr>
           in case makeRequest rem c ''PUT'' ''api/public/organizations/memberships''
                     (UpdateMembershipBody updateRequest) w1 of
                (Inl err, w2) \<Rightarrow> (Inl (''failed to update membership: '' @ err), w2)
              | (Inr resp, w2) \<Rightarrow>
                  (case as_OrganizationMembership resp of
                     Inl err \<Rightarrow> (Inl (''failed to decode membership response: '' @ err), w2)
                   | Inr updatedMembership \<Rightarrow>
                       (Inr (if om_ID updatedMembership = []
                             then updatedMembership\<lparr>om_ID := membershipID\<rparr>
                             else updatedMembership), w2))))"

definition impl_RemoveMember ::
  "remote \<Rightarrow> organizationClientImpl \<Rightarrow> string \<Rightarrow> sent \<Rightarrow> string option \<times> sent" where
  "impl_RemoveMember rem c membershipID w =
     (case makeRequest rem c ''DELETE'' ''api/public/organizations/memberships''
             (RemoveMemberBody membershipID) w of
        (Inl err, w1) \<Rightarrow> (Some err, w1)
      | (Inr resp, w1) \<Rightarrow>
          (case as_removeMemberResponse resp of
             Inl err \<Rightarrow> (Some err, w1)
           | Inr removeMemberResp \<Rightarrow>
               (if \<not> rm_Success removeMemberResp
                   \<and> \<not> strings_Contains (strings_ToLower (rm_Message removeMemberResp)) ''deleted''
                   \<and> \<not> strings_Contains (strings_ToLower (rm_Message removeMemberResp)) ''removed''
                then (Some (''failed to remove member with ID '' @ membershipID @ '': ''
                            @ rm_Message removeMemberResp), w1)
                else (None, w1))))"

definition impl_CreateSCIMUser ::
  "remote \<Rightarrow> organizationClientImpl \<Rightarrow> SCIMUserRequest \<Rightarrow> sent
     \<Rightarrow> (string + SCIMUserResponse) \<times> sent" where
  "impl_CreateSCIMUser rem c request w =
     (let request = (if \<not> sq_Active request then request\<lparr>sq_Active := True\<rparr> else request)
      in case makeRequest rem c ''POST'' ''api/public/scim/Users'' (SCIMUserBody request) w of
           (Inl err, w1) \<Rightarrow> (Inl (''failed to create SCIM user: '' @ err), w1)
         | (Inr resp, w1) \<Rightarrow>
             (case as_SCIMUserResponse resp of
                Inl err \<Rightarrow> (Inl (''failed to decode SCIM user response: '' @ err), w1)
              | Inr scimUser \<Rightarrow> (Inr scimUser, w1)))"

text \<open>The implementation, as a value of the interface.\<close>

definition implClient :: "remote \<Rightarrow> organizationClientImpl \<Rightarrow> sent OrganizationClient" where
  "implClient rem c =
     \<lparr>GetProject = impl_GetProject rem c,
      ListMemberships = impl_ListMemberships rem c,
      GetMembership = impl_GetMembership rem c,
      UpdateMembership = impl_UpdateMembership rem c,
      RemoveMember = impl_RemoveMember rem c,
      CreateSCIMUser = impl_CreateSCIMUser rem c\<rparr>"

subsection \<open>The interfaces \<^verbatim>\<open>ClientFactory\<close> and \<^verbatim>\<open>AdminClient\<close>\<close>

text \<open>
  The adapters reach the gateway through \<^verbatim>\<open>ClientFactory.NewOrganizationClient(pub, priv)\<close>;
  the organization adapter holds the \<^verbatim>\<open>AdminClient\<close> that the factory gave it. Of the
  admin client, whose implementation is in another file of the package, only the
  interface methods that the modelled operations call are kept.
\<close>

record 'w ClientFactory =
  cf_NewOrganizationClient :: "string \<Rightarrow> string \<Rightarrow> 'w OrganizationClient"

record Organization =
  o_ID :: string
  o_Name :: string
  o_Metadata :: metadata

record 'w AdminClient =
  GetOrganization :: "string \<Rightarrow> 'w \<Rightarrow> (string + Organization) \<times> 'w"
  DeleteOrganization :: "string \<Rightarrow> 'w \<Rightarrow> string option \<times> 'w"

text \<open>
  Modelled from the spec: the implementation of \<^verbatim>\<open>ClientFactory\<close>, which is in another
  file of the package. The factory is given the provider's host and constructs the gateway instance for
  a scoped key pair per call, with \<^verbatim>\<open>NewOrganizationClient(host, pub, priv)\<close>.
\<close>

definition implFactory :: "remote \<Rightarrow> string \<Rightarrow> sent ClientFactory" where
  "implFactory rem h =
     \<lparr>cf_NewOrganizationClient = (\<lambda>pub priv. implClient rem (NewOrganizationClient h pub priv))\<rparr>"

subsection \<open>Recording the calls of a client\<close>

text \<open>
  To count the calls an adapter makes through the interface, a client is wrapped so that
  every call is first written to a log, with the key pair the client was made for, and then
  passed on unchanged (what a test's mock records).
\<close>

datatype client_method =
    Call_GetProject string
  | Call_ListMemberships
  | Call_GetMembership string
  | Call_UpdateMembership string UpdateMembershipRequest
  | Call_RemoveMember string
  | Call_CreateSCIMUser SCIMUserRequest

type_synonym client_call = "(string \<times> string) \<times> client_method"

definition recorded ::
  "(string \<times> string) \<Rightarrow> client_method \<Rightarrow> ('w \<Rightarrow> 'a \<times> 'w) \<Rightarrow> 'w \<times> client_call list
     \<Rightarrow> 'a \<times> ('w \<times> client_call list)" where
  "recorded keys m call wl =
     (case call (fst wl) of (res, w1) \<Rightarrow> (res, (w1, snd wl @ [(keys, m)])))"

definition recordingClient ::
  "(string \<times> string) \<Rightarrow> 'w OrganizationClient \<Rightarrow> ('w \<times> client_call list) OrganizationClient" where
  "recordingClient keys c =
     \<lparr>GetProject = (\<lambda>projectID. recorded keys (Call_GetProject projectID) (GetProject c projectID)),
      ListMemberships = recorded keys Call_ListMemberships (ListMemberships c),
      GetMembership = (\<lambda>membershipID.
         recorded keys (Call_GetMembership membershipID) (GetMembership c membershipID)),
      UpdateMembership = (\<lambda>membershipID request.
         recorded keys (Call_UpdateMembership membershipID request)
           (UpdateMembership c membershipID request)),
      RemoveMember = (\<lambda>membershipID.
         recorded keys (Call_RemoveMember membershipID) (RemoveMember c membershipID)),
      CreateSCIMUser = (\<lambda>request.
         recorded keys (Call_CreateSCIMUser request) (CreateSCIMUser c request))\<rparr>"

definition recordingFactory :: "'w ClientFactory \<Rightarrow> ('w \<times> client_call list) ClientFactory" where
  "recordingFactory f =
     \<lparr>cf_NewOrganizationClient =
        (\<lambda>pub priv. recordingClient (pub, priv) (cf_NewOrganizationClient f pub priv))\<rparr>"

definition is_UpdateMembership :: "client_call \<Rightarrow> bool" where
  "is_UpdateMembership c = (case snd c of Call_UpdateMembership i r \<Rightarrow> True | _ \<Rightarrow> False)"

definition is_CreateSCIMUser :: "client_call \<Rightarrow> bool" where
  "is_CreateSCIMUser c = (case snd c of Call_CreateSCIMUser r \<Rightarrow> True | _ \<Rightarrow> False)"

section \<open>The organization membership adapter\<close>

record organizationMembershipResourceModel =
  mm_ID :: tf_string
  mm_Email :: tf_string
  mm_Role :: tf_string
  mm_Status :: tf_string
  mm_UserID :: tf_string
  mm_Username :: tf_string
  mm_OrganizationPublicKey :: tf_string
  mm_OrganizationPrivateKey :: tf_string

definition validRoles :: "string list" where
  "validRoles = [''OWNER'', ''ADMIN'', ''MEMBER'', ''VIEWER'']"

text \<open>The loop over \<^verbatim>\<open>validRoles\<close> that sets \<^verbatim>\<open>isValidRole\<close> and breaks at the first match.\<close>

definition isValidRole :: "string \<Rightarrow> bool" where
  "isValidRole role = list_ex (\<lambda>validRole. role = validRole) validRoles"

definition invalidRoleDetail :: "string \<Rightarrow> string" where
  "invalidRoleDetail role =
     ''Role must be one of: '' @ strings_Join validRoles '', '' @ ''. Got: '' @ role"

text \<open>
  The assignments that follow every successful \<^verbatim>\<open>UpdateMembership\<close> in \<^verbatim>\<open>Create\<close> and
  \<^verbatim>\<open>Update\<close> (the same lines three times in the source): the identifier is the
  membership's \<^verbatim>\<open>ID\<close>, or its \<^verbatim>\<open>UserID\<close> when the \<^verbatim>\<open>ID\<close> is empty.
\<close>

definition planWith ::
  "organizationMembershipResourceModel \<Rightarrow> OrganizationMembership
     \<Rightarrow> organizationMembershipResourceModel" where
  "planWith plan membership =
     (let membershipID = om_ID membership;
          membershipID = (if membershipID = [] then om_UserID membership else membershipID)
      in plan\<lparr>mm_ID := StringValue membershipID,
              mm_Email := StringValue (om_Email membership),
              mm_Role := StringValue (om_Role membership),
              mm_Status := StringValue (om_Status membership),
              mm_UserID := StringValue (om_UserID membership),
              mm_Username := StringValue (om_Username membership)\<rparr>)"

definition organizationMembershipResource_Create ::
  "'w ClientFactory \<Rightarrow> organizationMembershipResourceModel tfsdk_data
     \<Rightarrow> organizationMembershipResourceModel response \<Rightarrow> 'w
     \<Rightarrow> organizationMembershipResourceModel response \<times> 'w" where
  "organizationMembershipResource_Create r req_Plan resp0 w =
     (let plan = snd req_Plan;
          resp = AppendDiags (fst req_Plan) resp0
      in if HasError (Diagnostics resp) then (resp, w)
         else
           let role = ValueString (mm_Role plan)
           in if \<not> isValidRole role
              then (AddError ''Invalid Role'' (invalidRoleDetail role) resp, w)
              else
                let organizationClient =
                      cf_NewOrganizationClient r
                        (ValueString (mm_OrganizationPublicKey plan))
                        (ValueString (mm_OrganizationPrivateKey plan));
                    email = ValueString (mm_Email plan)
                in case ListMemberships organizationClient w of
                     (Inl err, w1) \<Rightarrow>
                       (AddError ''Error listing current memberships'' err resp, w1)
                   | (Inr memberships, w1) \<Rightarrow>
                       (case find (\<lambda>m. om_Email m = email) memberships of
                          None \<Rightarrow>
                            (case CreateSCIMUser organizationClient
                                    \<lparr>sq_UserName = email, sq_Emails = [(email, True)],
                                     sq_Password = [], sq_Active = True\<rparr> w1 of
                               (Inl err, w2) \<Rightarrow>
                                 (AddError ''Error creating user via SCIM''
                                    (''Failed to create user with email '' @ email @ '': '' @ err
                                     @ ''. User may already exist in Langfuse system.'') resp, w2)
                             | (Inr scimUser, w2) \<Rightarrow>
                                 (case ListMemberships organizationClient w2 of
                                    (Inl err, w3) \<Rightarrow>
                                      (AddError
                                         ''Error listing memberships after SCIM user creation''
                                         err resp, w3)
                                  | (Inr memberships2, w3) \<Rightarrow>
                                      (case find (\<lambda>m. om_UserID m = su_ID scimUser) memberships2 of
                                         None \<Rightarrow>
                                           (AddError ''Error finding new membership''
                                              (''User was created via SCIM but membership not found in organization. UserID: ''
                                               @ su_ID scimUser) resp, w3)
                                       | Some newMembership \<Rightarrow>
                                           (case UpdateMembership organizationClient
                                                   (om_ID newMembership)
                                                   \<lparr>um_UserID = su_ID scimUser, um_Email = [],
                                                    um_Role = role\<rparr> w3 of
                                              (Inl err, w4) \<Rightarrow>
                                                (AddError ''Error updating membership role''
                                                   err resp, w4)
                                            | (Inr membership, w4) \<Rightarrow>
                                                (State_Set (planWith plan membership) resp, w4)))))
                        | Some existingMembership \<Rightarrow>
                            (case UpdateMembership organizationClient
                                    (om_ID existingMembership)
                                    \<lparr>um_UserID = om_UserID existingMembership, um_Email = [],
                                     um_Role = role\<rparr> w1 of
                               (Inl err, w2) \<Rightarrow>
                                 (AddError ''Error updating membership role'' err resp, w2)
                             | (Inr membership, w2) \<Rightarrow>
                                 (State_Set (planWith plan membership) resp, w2))))"

definition organizationMembershipResource_Read ::
  "'w ClientFactory \<Rightarrow> organizationMembershipResourceModel tfsdk_data
     \<Rightarrow> organizationMembershipResourceModel response \<Rightarrow> 'w
     \<Rightarrow> organizationMembershipResourceModel response \<times> 'w" where
  "organizationMembershipResource_Read r req_State resp0 w =
     (let state = snd req_State;
          resp = AppendDiags (fst req_State) resp0
      in if HasError (Diagnostics resp) then (resp, w)
         else
           let organizationClient =
                 cf_NewOrganizationClient r
                   (ValueString (mm_OrganizationPublicKey state))
                   (ValueString (mm_OrganizationPrivateKey state))
           in case GetMembership organizationClient (ValueString (mm_ID state)) w of
                (Inl err, w1) \<Rightarrow>
                  (if strings_Contains err ''cannot find membership''
                   then (State_RemoveResource resp, w1)
                   else (AddError ''Error reading membership'' err resp, w1))
              | (Inr membership, w1) \<Rightarrow>
                  (State_Set
                     (state\<lparr>mm_Email := StringValue (om_Email membership),
                            mm_Role := StringValue (om_Role membership),
                            mm_Status := StringValue (om_Status membership),
                            mm_UserID := StringValue (om_UserID membership),
                            mm_Username := StringValue (om_Username membership),
                            mm_ID := (if om_ID membership \<noteq> []
                                      then StringValue (om_ID membership)
                                      else StringValue (om_UserID membership))\<rparr>) resp, w1))"

definition organizationMembershipResource_Update ::
  "'w ClientFactory \<Rightarrow> organizationMembershipResourceModel tfsdk_data
     \<Rightarrow> organizationMembershipResourceModel tfsdk_data
     \<Rightarrow> organizationMembershipResourceModel response \<Rightarrow> 'w
     \<Rightarrow> organizationMembershipResourceModel response \<times> 'w" where
  "organizationMembershipResource_Update r req_Plan req_State resp0 w =
     (let plan = snd req_Plan;
          resp = AppendDiags (fst req_Plan) resp0
      in if HasError (Diagnostics resp) then (resp, w)
         else
           let state = snd req_State;
               resp = AppendDiags (fst req_State) resp
           in if HasError (Diagnostics resp) then (resp, w)
              else
                let role = ValueString (mm_Role plan)
                in if \<not> isValidRole role
                   then (AddError ''Invalid Role'' (invalidRoleDetail role) resp, w)
                   else
                     let organizationClient =
                           cf_NewOrganizationClient r
                             (ValueString (mm_OrganizationPublicKey state))
                             (ValueString (mm_OrganizationPrivateKey state))
                     in case UpdateMembership organizationClient (ValueString (mm_ID state))
                               \<lparr>um_UserID = [], um_Email = [], um_Role = role\<rparr> w of
                          (Inl err, w1) \<Rightarrow> (AddError ''Error updating membership'' err resp, w1)
                        | (Inr membership, w1) \<Rightarrow>
                            (State_Set (planWith plan membership) resp, w1))"

definition organizationMembershipResource_Delete ::
  "'w ClientFactory \<Rightarrow> organizationMembershipResourceModel tfsdk_data
     \<Rightarrow> organizationMembershipResourceModel response \<Rightarrow> 'w
     \<Rightarrow> organizationMembershipResourceModel response \<times> 'w" where
  "organizationMembershipResource_Delete r req_State resp0 w =
     (let state = snd req_State;
          resp = AppendDiags (fst req_State) resp0
      in if HasError (Diagnostics resp) then (resp, w)
         else
           let organizationClient =
                 cf_NewOrganizationClient r
                   (ValueString (mm_OrganizationPublicKey state))
                   (ValueString (mm_OrganizationPrivateKey state))
           in case RemoveMember organizationClient (ValueString (mm_UserID state)) w of
                (Some err, w1) \<Rightarrow> (AddError ''Error removing member'' err resp, w1)
              | (None, w1) \<Rightarrow> (resp, w1))"

section \<open>The project adapter\<close>

record projectResourceModel =
  pm_ID :: tf_string
  pm_Name :: tf_string
  pm_RetentionDays :: tf_int32
  pm_Metadata :: tf_map
  pm_OrganizationID :: tf_string
  pm_OrganizationPublicKey :: tf_string
  pm_OrganizationPrivateKey :: tf_string

definition projectResource_Read ::
  "'w ClientFactory \<Rightarrow> projectResourceModel tfsdk_data \<Rightarrow> projectResourceModel response \<Rightarrow> 'w
     \<Rightarrow> projectResourceModel response \<times> 'w" where
  "projectResource_Read r req_State resp0 w =
     (let data = snd req_State;
          resp = AppendDiags (fst req_State) resp0
      in if HasError (Diagnostics resp) then (resp, w)
         else
           let organizationClient =
                 cf_NewOrganizationClient r
                   (ValueString (pm_OrganizationPublicKey data))
                   (ValueString (pm_OrganizationPrivateKey data))
           in case GetProject organizationClient (ValueString (pm_ID data)) w of
                (Inl err, w1) \<Rightarrow> (AddError ''Error reading project'' err resp, w1)
              | (Inr project, w1) \<Rightarrow>
                  if conversionStops (p_Metadata project) resp then (resp, w1)
                  else
                  (State_Set
                     \<lparr>pm_ID = StringValue (p_ID project),
                      pm_Name = StringValue (p_Name project),
                      pm_RetentionDays = pm_RetentionDays data,
                      pm_Metadata = metadataMap (p_Metadata project),
                      pm_OrganizationID = StringValue (ValueString (pm_OrganizationID data)),
                      pm_OrganizationPublicKey =
                        StringValue (ValueString (pm_OrganizationPublicKey data)),
                      pm_OrganizationPrivateKey =
                        StringValue (ValueString (pm_OrganizationPrivateKey data))\<rparr> resp, w1))"

text \<open>
  \<^verbatim>\<open>resource.ImportStatePassthroughID(ctx, path.Root("id"), req, resp)\<close> writes the
  request's identifier to the attribute \<^verbatim>\<open>id\<close> of the state; on a null state the other
  attributes are null.
\<close>

definition nullProject :: projectResourceModel where
  "nullProject =
     \<lparr>pm_ID = StringNull, pm_Name = StringNull, pm_RetentionDays = Int32Null,
      pm_Metadata = MapNull, pm_OrganizationID = StringNull,
      pm_OrganizationPublicKey = StringNull, pm_OrganizationPrivateKey = StringNull\<rparr>"

definition project_ImportStatePassthroughID ::
  "string \<Rightarrow> projectResourceModel response \<Rightarrow> projectResourceModel response" where
  "project_ImportStatePassthroughID req_ID resp =
     resp\<lparr>State :=
       Some ((case State resp of None \<Rightarrow> nullProject | Some m \<Rightarrow> m)
               \<lparr>pm_ID := StringValue req_ID\<rparr>)\<rparr>"

definition projectResource_ImportState ::
  "'w ClientFactory \<Rightarrow> string \<Rightarrow> projectResourceModel response \<Rightarrow> 'w
     \<Rightarrow> projectResourceModel response \<times> 'w" where
  "projectResource_ImportState r req_ID resp w =
     (let importParts = strings_Split req_ID (CHR '','')
      in if length importParts \<noteq> 4
         then (AddError ''Invalid import format''
                 ''Import ID must be in format: project_id,organization_id,organization_public_key,organization_private_key''
                 resp, w)
         else
           let projectID = importParts ! 0;
               organizationID = importParts ! 1;
               organizationPublicKey = importParts ! 2;
               organizationPrivateKey = importParts ! 3;
               organizationClient =
                 cf_NewOrganizationClient r organizationPublicKey organizationPrivateKey
           in case GetProject organizationClient projectID w of
                (Inl err, w1) \<Rightarrow>
                  (AddError ''Error importing project''
                     (''Could not read project '' @ projectID @ '': '' @ err) resp, w1)
              | (Inr project, w1) \<Rightarrow>
                  if conversionStops (p_Metadata project) resp then (resp, w1)
                  else
                  (project_ImportStatePassthroughID projectID
                     (State_Set
                        \<lparr>pm_ID = StringValue (p_ID project),
                         pm_Name = StringValue (p_Name project),
                         pm_RetentionDays = Int32Value 0,
                         pm_Metadata = metadataMap (p_Metadata project),
                         pm_OrganizationID = StringValue organizationID,
                         pm_OrganizationPublicKey = StringValue organizationPublicKey,
                         pm_OrganizationPrivateKey = StringValue organizationPrivateKey\<rparr>
                        resp), w1))"

section \<open>The organization adapter\<close>

record organizationResourceModel =
  orm_ID :: tf_string
  orm_Name :: tf_string
  orm_Metadata :: tf_map

definition organizationResource_Read ::
  "'w AdminClient \<Rightarrow> organizationResourceModel tfsdk_data
     \<Rightarrow> organizationResourceModel response \<Rightarrow> 'w
     \<Rightarrow> organizationResourceModel response \<times> 'w" where
  "organizationResource_Read r req_State resp0 w =
     (let data = snd req_State;
          resp = AppendDiags (fst req_State) resp0
      in if HasError (Diagnostics resp) then (resp, w)
         else
           case GetOrganization r (ValueString (orm_ID data)) w of
             (Inl err, w1) \<Rightarrow> (AddError ''Error reading organization'' err resp, w1)
           | (Inr org, w1) \<Rightarrow>
               if conversionStops (o_Metadata org) resp then (resp, w1)
               else
               (State_Set
                  \<lparr>orm_ID = StringValue (o_ID org),
                   orm_Name = StringValue (o_Name org),
                   orm_Metadata = metadataMap (o_Metadata org)\<rparr> resp, w1))"



section \<open>Notions used in the statements\<close>

text \<open>
  The client an operation of the membership adapter makes for a model:
  \<^verbatim>\<open>r.ClientFactory.NewOrganizationClient\<close> on the model's key pair.
\<close>

definition clientFor ::
  "'w ClientFactory \<Rightarrow> organizationMembershipResourceModel \<Rightarrow> 'w OrganizationClient" where
  "clientFor r m =
     cf_NewOrganizationClient r (ValueString (mm_OrganizationPublicKey m))
       (ValueString (mm_OrganizationPrivateKey m))"

text \<open>
  The identifier resolution in the specification's words: the primary identifier if it is
  not empty, else the secondary one.
\<close>

definition spec_fallback_id :: "string \<Rightarrow> string \<Rightarrow> string" where
  "spec_fallback_id primary_id secondary_id =
     (if primary_id \<noteq> [] then primary_id else secondary_id)"

text \<open>
  The exchange inside \<^verbatim>\<open>UpdateMembership\<close> alone: the \<^verbatim>\<open>PUT\<close> request with a body, and the
  remote's answer to it as \<^verbatim>\<open>decodeResponse\<close> reads it, before the gateway touches it.
\<close>

definition putMembership ::
  "remote \<Rightarrow> organizationClientImpl \<Rightarrow> UpdateMembershipRequest \<Rightarrow> sent
     \<Rightarrow> (string + OrganizationMembership) \<times> sent" where
  "putMembership rem c body w =
     (case makeRequest rem c ''PUT'' ''api/public/organizations/memberships''
             (UpdateMembershipBody body) w of
        (Inl err, w1) \<Rightarrow> (Inl err, w1)
      | (Inr resp, w1) \<Rightarrow> (as_OrganizationMembership resp, w1))"

section \<open>Example remotes and records\<close>

text \<open>
  A remote that answers the \<open>n\<close>-th request with the \<open>n\<close>-th response of a script and
  refuses the connection afterwards; \<open>only_*\<close> build responses that decode to one target
  type only.
\<close>

definition scriptedRemote :: "http_response list \<Rightarrow> remote" where
  "scriptedRemote script =
     \<lparr>build_error = (\<lambda>methodType h apiPath body. None),
      Do = (\<lambda>w req. if length w < length script then Inr (script ! length w)
                      else Inl ''connection refused'')\<rparr>"

definition undecodable :: http_response where
  "undecodable =
     \<lparr>as_listProjectsResponse = Inl ''unexpected response body'',
      as_listMembershipsResponse = Inl ''unexpected response body'',
      as_OrganizationMembership = Inl ''unexpected response body'',
      as_removeMemberResponse = Inl ''unexpected response body'',
      as_SCIMUserResponse = Inl ''unexpected response body''\<rparr>"

definition only_projects :: "Project list \<Rightarrow> http_response" where
  "only_projects ps = undecodable\<lparr>as_listProjectsResponse := Inr ps\<rparr>"

definition only_memberships :: "OrganizationMembership list \<Rightarrow> http_response" where
  "only_memberships ms = undecodable\<lparr>as_listMembershipsResponse := Inr ms\<rparr>"

definition only_membership :: "OrganizationMembership \<Rightarrow> http_response" where
  "only_membership m = undecodable\<lparr>as_OrganizationMembership := Inr m\<rparr>"

definition only_removed :: "bool \<Rightarrow> string \<Rightarrow> http_response" where
  "only_removed ok msg =
     undecodable\<lparr>as_removeMemberResponse := Inr \<lparr>rm_Success = ok, rm_Message = msg\<rparr>\<rparr>"

definition only_scimUser :: "SCIMUserResponse \<Rightarrow> http_response" where
  "only_scimUser u = undecodable\<lparr>as_SCIMUserResponse := Inr u\<rparr>"

definition alice :: OrganizationMembership where
  "alice =
     \<lparr>om_ID = ''m-1'', om_Email = ''alice@example.com'', om_Role = ''MEMBER'',
      om_Status = ''ACTIVE'', om_UserID = ''u-42'', om_Username = ''alice''\<rparr>"

definition alicePlan :: "string \<Rightarrow> organizationMembershipResourceModel" where
  "alicePlan role =
     \<lparr>mm_ID = StringUnknown, mm_Email = StringValue ''alice@example.com'',
      mm_Role = StringValue role, mm_Status = StringUnknown, mm_UserID = StringUnknown,
      mm_Username = StringUnknown, mm_OrganizationPublicKey = StringValue ''pk-1'',
      mm_OrganizationPrivateKey = StringValue ''sk-1''\<rparr>"

definition aliceState :: "string \<Rightarrow> organizationMembershipResourceModel" where
  "aliceState ident =
     \<lparr>mm_ID = StringValue ident, mm_Email = StringValue ''alice@example.com'',
      mm_Role = StringValue ''MEMBER'', mm_Status = StringValue ''ACTIVE'',
      mm_UserID = StringValue ''u-42'', mm_Username = StringValue ''alice'',
      mm_OrganizationPublicKey = StringValue ''pk-1'',
      mm_OrganizationPrivateKey = StringValue ''sk-1''\<rparr>"

definition projectState :: "32 word \<Rightarrow> projectResourceModel" where
  "projectState days =
     \<lparr>pm_ID = StringValue ''proj-123'', pm_Name = StringValue ''test-project'',
      pm_RetentionDays = Int32Value days, pm_Metadata = MapValue [(''test'', ''value'')],
      pm_OrganizationID = StringValue ''org-123'',
      pm_OrganizationPublicKey = StringValue ''pub-key'',
      pm_OrganizationPrivateKey = StringValue ''priv-key''\<rparr>"

definition remoteProject :: Project where
  "remoteProject =
     \<lparr>p_ID = ''proj-123'', p_Name = ''test-project'', p_RetentionDays = 0,
      p_Metadata = [(''test'', ''value'')]\<rparr>"



definition emptyResponse :: "'m response" where
  "emptyResponse = \<lparr>Diagnostics = [], State = None\<rparr>"

section \<open>Facts about the library functions\<close>

lemma strings_Contains_sublist: "strings_Contains s substr \<longleftrightarrow> sublist substr s"
  by (induction s) (simp_all add: sublist_Cons_right)

lemma sublist_map_iff:
  "sublist v (map f s) \<longleftrightarrow> (\<exists>u. sublist u s \<and> map f u = v)"
  unfolding sublist_def
  apply (auto simp: map_eq_append_conv append_eq_map_conv)
  apply blast
  done

lemma set_Append: "set (Append ds es) = set ds \<union> set es"
  by (induction ds es rule: Append.induct) auto

lemma HasError_iff: "HasError ds \<longleftrightarrow> (\<exists>d\<in>set ds. dseverity d = SeverityError)"
  by (simp add: HasError_def list_ex_iff)

lemma Append_fresh: "d \<notin> set ds \<Longrightarrow> Append ds [d] = ds @ [d]"
  by simp

lemma Append_error_fresh:
  "\<not> HasError ds \<Longrightarrow>
   Append ds [Diagnostic SeverityError s d] = ds @ [Diagnostic SeverityError s d]"
  by (rule Append_fresh) (auto simp: HasError_iff)

lemma HasError_Append: "HasError (Append ds es) \<longleftrightarrow> HasError ds \<or> HasError es"
  by (auto simp: HasError_iff set_Append)

lemma HasError_AddError: "HasError (Diagnostics (AddError s d resp))"
  by (force simp: AddError_def HasError_iff set_Append)

lemma HasError_AddWarning: "HasError (Diagnostics (AddWarning s d resp)) = HasError (Diagnostics resp)"
  by (auto simp: AddWarning_def HasError_iff set_Append)

lemma State_AddError: "State (AddError s d resp) = State resp"
  by (simp add: AddError_def)

lemma State_AddWarning: "State (AddWarning s d resp) = State resp"
  by (simp add: AddWarning_def)

lemma State_AppendDiags: "State (AppendDiags ds resp) = State resp"
  by (simp add: AppendDiags_def)

lemma Diagnostics_State_Set: "Diagnostics (State_Set m resp) = Diagnostics resp"
  by (simp add: State_Set_def)

lemma State_State_Set: "State (State_Set m resp) = Some m"
  by (simp add: State_Set_def)

lemma in_AddError: "Diagnostic SeverityError s d \<in> set (Diagnostics (AddError s d resp))"
  by (simp add: AddError_def set_Append)


lemma Errors_AddError:
  "\<not> HasError (Diagnostics resp) \<Longrightarrow> Errors (Diagnostics (AddError s d resp)) = [Diagnostic SeverityError s d]"
  apply (simp add: AddError_def Errors_def HasError_iff)
  apply (auto simp: filter_empty_conv)
  done

lemma length_split_from: "length (split_from cur sep s) = Suc (count_list s sep)"
  by (induction cur sep s rule: split_from.induct) auto

lemma length_strings_Split: "length (strings_Split s sep) = Suc (count_list s sep)"
  by (simp add: strings_Split_def length_split_from)

lemma conversionStops_iff:
  "conversionStops m resp \<longleftrightarrow> m \<noteq> [] \<and> HasError (Diagnostics resp)"
  by (simp add: conversionStops_def AppendDiags_def)

section \<open>Membership: the paths of Create\<close>

lemma isValidRole_iff:
  "isValidRole role \<longleftrightarrow> role \<in> {''OWNER'', ''ADMIN'', ''MEMBER'', ''VIEWER''}"
  by (auto simp: isValidRole_def validRoles_def)

lemma invalidRoleDetail_eq:
  "invalidRoleDetail role = ''Role must be one of: OWNER, ADMIN, MEMBER, VIEWER. Got: '' @ role"
  by (simp add: invalidRoleDetail_def validRoles_def)

lemma Create_early:
  "HasError (Append (Diagnostics resp) ds) \<Longrightarrow>
   organizationMembershipResource_Create r (ds, plan) resp w = (AppendDiags ds resp, w)"
  by (simp add: organizationMembershipResource_Create_def Let_def AppendDiags_def)

lemma Create_invalid:
  "\<not> HasError (Append (Diagnostics resp) ds) \<Longrightarrow>
   \<not> isValidRole (ValueString (mm_Role plan)) \<Longrightarrow>
   organizationMembershipResource_Create r (ds, plan) resp w =
     (AddError ''Invalid Role'' (invalidRoleDetail (ValueString (mm_Role plan)))
        (AppendDiags ds resp), w)"
  by (simp add: organizationMembershipResource_Create_def Let_def AppendDiags_def)

text \<open>Past the two local checks, Create is the chain of gateway calls.\<close>

lemma Create_valid:
  assumes "\<not> HasError (Append (Diagnostics resp) ds)" "isValidRole (ValueString (mm_Role plan))"
  shows "organizationMembershipResource_Create r (ds, plan) resp w =
    (let resp1 = AppendDiags ds resp; role = ValueString (mm_Role plan);
         organizationClient = cf_NewOrganizationClient r
                        (ValueString (mm_OrganizationPublicKey plan))
                        (ValueString (mm_OrganizationPrivateKey plan));
         email = ValueString (mm_Email plan)
     in case ListMemberships organizationClient w of
          (Inl err, w1) \<Rightarrow> (AddError ''Error listing current memberships'' err resp1, w1)
        | (Inr memberships, w1) \<Rightarrow>
            (case find (\<lambda>m. om_Email m = email) memberships of
               None \<Rightarrow>
                 (case CreateSCIMUser organizationClient
                         \<lparr>sq_UserName = email, sq_Emails = [(email, True)],
                          sq_Password = [], sq_Active = True\<rparr> w1 of
                    (Inl err, w2) \<Rightarrow>
                      (AddError ''Error creating user via SCIM''
                         (''Failed to create user with email '' @ email @ '': '' @ err
                          @ ''. User may already exist in Langfuse system.'') resp1, w2)
                  | (Inr scimUser, w2) \<Rightarrow>
                      (case ListMemberships organizationClient w2 of
                         (Inl err, w3) \<Rightarrow>
                           (AddError ''Error listing memberships after SCIM user creation''
                              err resp1, w3)
                       | (Inr memberships2, w3) \<Rightarrow>
                           (case find (\<lambda>m. om_UserID m = su_ID scimUser) memberships2 of
                              None \<Rightarrow>
                                (AddError ''Error finding new membership''
                                   (''User was created via SCIM but membership not found in organization. UserID: ''
                                    @ su_ID scimUser) resp1, w3)
                            | Some newMembership \<Rightarrow>
                                (case UpdateMembership organizationClient (om_ID newMembership)
                                        \<lparr>um_UserID = su_ID scimUser, um_Email = [],
                                         um_Role = role\<rparr> w3 of
                                   (Inl err, w4) \<Rightarrow>
                                     (AddError ''Error updating membership role'' err resp1, w4)
                                 | (Inr membership, w4) \<Rightarrow>
                                     (State_Set (planWith plan membership) resp1, w4)))))
             | Some existingMembership \<Rightarrow>
                 (case UpdateMembership organizationClient (om_ID existingMembership)
                         \<lparr>um_UserID = om_UserID existingMembership, um_Email = [],
                          um_Role = role\<rparr> w1 of
                    (Inl err, w2) \<Rightarrow> (AddError ''Error updating membership role'' err resp1, w2)
                  | (Inr membership, w2) \<Rightarrow>
                      (State_Set (planWith plan membership) resp1, w2))))"
  using assms
  by (simp add: organizationMembershipResource_Create_def Let_def AppendDiags_def)

lemma Create_error_keeps_state:
  assumes "HasError (Diagnostics (fst (organizationMembershipResource_Create r (ds, plan) resp w)))"
  shows "State (fst (organizationMembershipResource_Create r (ds, plan) resp w)) = State resp"
proof (cases "HasError (Append (Diagnostics resp) ds)")
  case True
  then show ?thesis by (simp add: Create_early State_AppendDiags)
next
  case ne: False
  show ?thesis
  proof (cases "isValidRole (ValueString (mm_Role plan))")
    case False
    then show ?thesis using ne by (simp add: Create_invalid State_AddError State_AppendDiags)
  next
    case True
    have ne': "\<not> HasError (Diagnostics (AppendDiags ds resp))"
      using ne by (simp add: AppendDiags_def)
    from assms ne' show ?thesis
      by (auto simp: Create_valid[OF ne True] Let_def State_AddError State_AppendDiags
            Diagnostics_State_Set split: prod.splits sum.splits option.splits)
  qed
qed

section \<open>Membership: the paths of Update and Read\<close>

lemma Update_invalid:
  "\<not> HasError (Append (Append (Diagnostics resp) ds) ds') \<Longrightarrow>
   \<not> isValidRole (ValueString (mm_Role plan)) \<Longrightarrow>
   organizationMembershipResource_Update r (ds, plan) (ds', state) resp w =
     (AddError ''Invalid Role'' (invalidRoleDetail (ValueString (mm_Role plan)))
        (AppendDiags ds' (AppendDiags ds resp)), w)"
  by (simp add: organizationMembershipResource_Update_def Let_def AppendDiags_def HasError_Append)

lemma Update_valid:
  "\<not> HasError (Append (Append (Diagnostics resp) ds) ds') \<Longrightarrow>
   isValidRole (ValueString (mm_Role plan)) \<Longrightarrow>
   organizationMembershipResource_Update r (ds, plan) (ds', state) resp w =
     (case UpdateMembership
             (cf_NewOrganizationClient r (ValueString (mm_OrganizationPublicKey state))
                (ValueString (mm_OrganizationPrivateKey state)))
             (ValueString (mm_ID state))
             \<lparr>um_UserID = [], um_Email = [], um_Role = ValueString (mm_Role plan)\<rparr> w of
        (Inl err, w1) \<Rightarrow>
          (AddError ''Error updating membership'' err (AppendDiags ds' (AppendDiags ds resp)), w1)
      | (Inr membership, w1) \<Rightarrow>
          (State_Set (planWith plan membership) (AppendDiags ds' (AppendDiags ds resp)), w1))"
  by (simp add: organizationMembershipResource_Update_def Let_def AppendDiags_def HasError_Append
      split: prod.splits sum.splits)

lemma Read_valid:
  "\<not> HasError (Append (Diagnostics resp) ds) \<Longrightarrow>
   organizationMembershipResource_Read r (ds, state) resp w =
     (case GetMembership (clientFor r state) (ValueString (mm_ID state)) w of
        (Inl err, w1) \<Rightarrow>
          (if strings_Contains err ''cannot find membership''
           then (State_RemoveResource (AppendDiags ds resp), w1)
           else (AddError ''Error reading membership'' err (AppendDiags ds resp), w1))
      | (Inr membership, w1) \<Rightarrow>
          (State_Set
             (state\<lparr>mm_Email := StringValue (om_Email membership),
                    mm_Role := StringValue (om_Role membership),
                    mm_Status := StringValue (om_Status membership),
                    mm_UserID := StringValue (om_UserID membership),
                    mm_Username := StringValue (om_Username membership),
                    mm_ID := (if om_ID membership \<noteq> []
                              then StringValue (om_ID membership)
                              else StringValue (om_UserID membership))\<rparr>)
             (AppendDiags ds resp), w1))"
  by (simp add: organizationMembershipResource_Read_def Let_def AppendDiags_def clientFor_def
      split: prod.splits sum.splits)

lemma Read_early:
  "HasError (Append (Diagnostics resp) ds) \<Longrightarrow>
   organizationMembershipResource_Read r (ds, state) resp w = (AppendDiags ds resp, w)"
  by (simp add: organizationMembershipResource_Read_def Let_def AppendDiags_def)

lemma Update_early:
  "HasError (Append (Append (Diagnostics resp) ds) ds') \<Longrightarrow>
   HasError (Diagnostics (fst (organizationMembershipResource_Update r (ds, plan) (ds', state) resp w)))"
  by (cases "HasError (Append (Diagnostics resp) ds)")
     (simp_all add: organizationMembershipResource_Update_def Let_def AppendDiags_def)

lemma mm_Role_planWith: "mm_Role (planWith plan membership) = StringValue (om_Role membership)"
  by (simp add: planWith_def Let_def)

section \<open>Evaluating the examples\<close>

lemmas remote_evals =
  implFactory_def implClient_def impl_GetProject_def impl_ListMemberships_def
  impl_GetMembership_def impl_UpdateMembership_def impl_RemoveMember_def
  impl_CreateSCIMUser_def makeRequest_def scriptedRemote_def NewOrganizationClient_def
  only_projects_def only_memberships_def only_membership_def only_removed_def
  only_scimUser_def undecodable_def

lemmas adapter_evals =
  AppendDiags_def AddError_def AddWarning_def State_Set_def State_RemoveResource_def
  HasError_def isValidRole_def validRoles_def planWith_def emptyResponse_def Let_def

section \<open>Facts about the gateway\<close>

lemma clientFor_impl:
  "clientFor (implFactory rem h) m =
     implClient rem (NewOrganizationClient h (ValueString (mm_OrganizationPublicKey m))
                       (ValueString (mm_OrganizationPrivateKey m)))"
  by (simp add: clientFor_def implFactory_def)

lemma impl_GetProject_absent:
  assumes "makeRequest rem c ''GET'' ''api/public/organizations/projects'' NoBody w = (Inr answer, w1)"
    and "as_listProjectsResponse answer = Inr projects"
    and "find (\<lambda>proj. p_ID proj = projectID) projects = None"
  shows "impl_GetProject rem c projectID w = (Inl (''cannot find project with ID '' @ projectID), w1)"
  using assms by (simp add: impl_GetProject_def)

lemma impl_GetMembership_absent:
  assumes "makeRequest rem c ''GET'' ''api/public/organizations/memberships'' NoBody w = (Inr answer, w1)"
    and "as_listMembershipsResponse answer = Inr memberships"
    and "find (\<lambda>m. om_ID m = membershipID \<or> om_UserID m = membershipID) memberships = None"
  shows "impl_GetMembership rem c membershipID w
           = (Inl (''cannot find membership with ID '' @ membershipID), w1)"
  using assms by (simp add: impl_GetMembership_def impl_ListMemberships_def)

lemma impl_GetMembership_found:
  assumes "makeRequest rem c ''GET'' ''api/public/organizations/memberships'' NoBody w = (Inr answer, w1)"
    and "as_listMembershipsResponse answer = Inr memberships"
    and "find (\<lambda>m. om_ID m = membershipID \<or> om_UserID m = membershipID) memberships = Some current"
  shows "impl_GetMembership rem c membershipID w = (Inr current, w1)"
  using assms by (simp add: impl_GetMembership_def impl_ListMemberships_def)

lemma makeRequest_sent:
  "makeRequest rem c methodType apiPath body w = (Inr answer, w1) \<Longrightarrow>
   w1 = w @ [\<lparr>rq_method = methodType, rq_host = host c, rq_path = apiPath,
              rq_username = publicKey c, rq_password = privateKey c, rq_body = body\<rparr>]"
  by (auto simp: makeRequest_def Let_def split: option.splits sum.splits)

lemma makeRequest_built:
  "build_error rem methodType (host c) apiPath body = None \<Longrightarrow>
   snd (makeRequest rem c methodType apiPath body w)
     = w @ [\<lparr>rq_method = methodType, rq_host = host c, rq_path = apiPath,
             rq_username = publicKey c, rq_password = privateKey c, rq_body = body\<rparr>]"
  by (auto simp: makeRequest_def Let_def split: option.splits sum.splits)

text \<open>
  What the gateway's role update returns: the remote's answer, with an empty \<^verbatim>\<open>ID\<close> filled
  by the identifier the update was called with.
\<close>

lemma impl_UpdateMembership_fills_ID:
  assumes "impl_GetMembership rem c membershipID w = (Inr current, w1)"
    and "makeRequest rem c ''PUT'' ''api/public/organizations/memberships''
           (UpdateMembershipBody
              \<lparr>um_UserID = (if um_UserID request = [] then om_UserID current
                              else um_UserID request),
               um_Email = [], um_Role = um_Role request\<rparr>) w1 = (Inr answer, w2)"
    and "as_OrganizationMembership answer = Inr updated"
  shows "impl_UpdateMembership rem c membershipID request w
           = (Inr (if om_ID updated = [] then updated\<lparr>om_ID := membershipID\<rparr> else updated), w2)"
  using assms by (simp add: impl_UpdateMembership_def Let_def)

section \<open>An example run\<close>

text \<open>
  An example run of Create for a new user: the listing without the email, the creation of
  the user, the second listing, the lookup inside the role update, and the update.
\<close>

lemma create_new_member_example:
  "organizationMembershipResource_Create
     (implFactory (scriptedRemote
        [only_memberships [],
         only_scimUser \<lparr>su_ID = ''u-42'', su_UserName = ''alice@example.com'',
                        su_Emails = [(''alice@example.com'', True)], su_Active = True\<rparr>,
         only_memberships [alice], only_memberships [alice],
         only_membership (alice\<lparr>om_ID := [], om_Role := ''ADMIN''\<rparr>)])
        ''https://cloud.langfuse.com'')
     ([], alicePlan ''ADMIN'') emptyResponse []
   = (\<lparr>Diagnostics = [],
       State = Some ((alicePlan ''ADMIN'')
         \<lparr>mm_ID := StringValue ''m-1'', mm_Email := StringValue ''alice@example.com'',
          mm_Role := StringValue ''ADMIN'', mm_Status := StringValue ''ACTIVE'',
          mm_UserID := StringValue ''u-42'', mm_Username := StringValue ''alice''\<rparr>)\<rparr>,
      map (\<lambda>(m, p, b). \<lparr>rq_method = m, rq_host = ''https://cloud.langfuse.com'', rq_path = p,
                          rq_username = ''pk-1'', rq_password = ''sk-1'', rq_body = b\<rparr>)
        [(''GET'', ''api/public/organizations/memberships'', NoBody),
         (''POST'', ''api/public/scim/Users'',
            SCIMUserBody \<lparr>sq_UserName = ''alice@example.com'',
                          sq_Emails = [(''alice@example.com'', True)],
                          sq_Password = [], sq_Active = True\<rparr>),
         (''GET'', ''api/public/organizations/memberships'', NoBody),
         (''GET'', ''api/public/organizations/memberships'', NoBody),
         (''PUT'', ''api/public/organizations/memberships'',
            UpdateMembershipBody \<lparr>um_UserID = ''u-42'', um_Email = [], um_Role = ''ADMIN''\<rparr>)])"
  by (simp add: organizationMembershipResource_Create_def remote_evals adapter_evals
      alice_def alicePlan_def)

section \<open>Project: Read keeps the retention period of the record\<close>

text \<open>
  Claim C3. Project Read re-emits the \<open>retention_days\<close> of the durable record instead of
  the value the remote returns. Whenever the read of the record's diagnostics is free of
  errors and the gateway's \<^verbatim>\<open>GetProject\<close> returns a project, whatever its
  \<^verbatim>\<open>RetentionDays\<close>, Read stores a record whose \<open>retention_days\<close> is the one of the prior
  record, and adds no error. In particular a prior record with 30 days and a remote
  answer with 0 days give a refreshed record with 30 days.
\<close>

theorem project_read_preserves_retention_days:
  assumes "\<not> HasError (Append (Diagnostics resp) ds)"
    and "GetProject (cf_NewOrganizationClient r (ValueString (pm_OrganizationPublicKey data))
                      (ValueString (pm_OrganizationPrivateKey data)))
           (ValueString (pm_ID data)) w = (Inr project, w1)"
  shows "map_option pm_RetentionDays (State (fst (projectResource_Read r (ds, data) resp w)))
           = Some (pm_RetentionDays data)
       \<and> \<not> HasError (Diagnostics (fst (projectResource_Read r (ds, data) resp w)))"
  using assms
  by (simp add: projectResource_Read_def AppendDiags_def State_Set_def conversionStops_def
      Let_def)

theorem project_read_preserves_retention_days_witness:
  "p_RetentionDays remoteProject = 0
   \<and> pm_RetentionDays (projectState 30) = Int32Value 30
   \<and> map_option pm_RetentionDays
        (State (fst (projectResource_Read
           (implFactory (scriptedRemote [only_projects [remoteProject]]) ''https://cloud.langfuse.com'')
           ([], projectState 30) \<lparr>Diagnostics = [], State = Some (projectState 30)\<rparr> [])))
       = Some (Int32Value 30)"
proof -
  have pre: "\<not> HasError (Append (Diagnostics
               \<lparr>Diagnostics = [], State = Some (projectState 30)\<rparr>) [])"
    by (simp add: HasError_def)
  have get: "GetProject
       (cf_NewOrganizationClient
          (implFactory (scriptedRemote [only_projects [remoteProject]]) ''https://cloud.langfuse.com'')
          (ValueString (pm_OrganizationPublicKey (projectState 30)))
          (ValueString (pm_OrganizationPrivateKey (projectState 30))))
       (ValueString (pm_ID (projectState 30))) []
     = (Inr remoteProject,
        [\<lparr>rq_method = ''GET'', rq_host = ''https://cloud.langfuse.com'',
          rq_path = ''api/public/organizations/projects'',
          rq_username = ''pub-key'', rq_password = ''priv-key'', rq_body = NoBody\<rparr>])"
    by (simp add: implFactory_def implClient_def impl_GetProject_def makeRequest_def
        scriptedRemote_def NewOrganizationClient_def projectState_def only_projects_def
        remoteProject_def)
  from project_read_preserves_retention_days[OF pre get]
  show ?thesis
    by (simp add: projectState_def remoteProject_def)
qed

section \<open>Organization: Delete with existing projects\<close>

lemma Errors_empty: "Errors ds = [] \<longleftrightarrow> \<not> HasError ds"
  by (auto simp: Errors_def HasError_iff filter_empty_conv)




section \<open>Read of an object that the remote no longer has\<close>

text \<open>The sibling path: membership Read drops a record that the remote no longer lists.\<close>

lemma membership_read_absent_is_removed:
  assumes pre: "\<not> HasError (Append (Diagnostics resp) ds)"
    and sent: "makeRequest rem
             (NewOrganizationClient h (ValueString (mm_OrganizationPublicKey state))
                (ValueString (mm_OrganizationPrivateKey state)))
             ''GET'' ''api/public/organizations/memberships'' NoBody w = (Inr answer, w1)"
    and answer: "as_listMembershipsResponse answer = Inr memberships"
    and absent: "find (\<lambda>m. om_ID m = ValueString (mm_ID state)
                           \<or> om_UserID m = ValueString (mm_ID state)) memberships = None"
  shows "organizationMembershipResource_Read (implFactory rem h) (ds, state) resp w
           = (\<lparr>Diagnostics = Append (Diagnostics resp) ds, State = None\<rparr>, w1)"
proof -
  have "strings_Contains (''cannot find membership with ID '' @ ValueString (mm_ID state))
          ''cannot find membership''"
    unfolding strings_Contains_sublist sublist_def
    by (rule exI[of _ "[]"], rule exI[of _ "'' with ID '' @ ValueString (mm_ID state)"]) simp
  then show ?thesis
    unfolding Read_valid[OF pre] clientFor_impl
    by (simp add: implClient_def impl_GetMembership_absent[OF sent answer absent]
        State_RemoveResource_def AppendDiags_def)
qed

text \<open>Organization Read reports every failure of the gateway as an error.\<close>

lemma organization_read_failure_is_error:
  assumes "\<not> HasError (Append (Diagnostics resp) ds)"
    and "GetOrganization r (ValueString (orm_ID data)) w = (Inl err, w1)"
  shows "organizationResource_Read r (ds, data) resp w
           = (AddError ''Error reading organization'' err (AppendDiags ds resp), w1)"
  using assms by (simp add: organizationResource_Read_def Let_def AppendDiags_def)

text \<open>
  Claim C2 says that the Read of every resource kind signals an absent resource when the
  remote reports that the object does not exist. Membership Read does
  (\<open>membership_read_absent_is_removed\<close>). Project Read does not: when the remote's list of
  projects, read and decoded without failure, has no project with the record's identifier,
  Read adds the error \<^verbatim>\<open>Error reading project\<close> with the gateway's text
  \<^verbatim>\<open>cannot find project with ID ...\<close> and keeps the record in the state. Organization Read
  treats every error of its gateway the same way (\<open>organization_read_failure_is_error\<close>).
\<close>

theorem project_read_absent_is_error:
  assumes pre: "\<not> HasError (Append (Diagnostics resp) ds)"
    and sent: "makeRequest rem
             (NewOrganizationClient h (ValueString (pm_OrganizationPublicKey data))
                (ValueString (pm_OrganizationPrivateKey data)))
             ''GET'' ''api/public/organizations/projects'' NoBody w = (Inr answer, w1)"
    and answer: "as_listProjectsResponse answer = Inr projects"
    and absent: "find (\<lambda>proj. p_ID proj = ValueString (pm_ID data)) projects = None"
  shows "projectResource_Read (implFactory rem h) (ds, data) resp w
           = (\<lparr>Diagnostics = Append (Diagnostics resp) ds
                   @ [Diagnostic SeverityError ''Error reading project''
                        (''cannot find project with ID '' @ ValueString (pm_ID data))],
               State = State resp\<rparr>, w1)"
proof -
  have ne: "\<not> HasError (Diagnostics (AppendDiags ds resp))"
    using pre by (simp add: AppendDiags_def)
  show ?thesis
    using pre Append_error_fresh[OF pre]
    by (simp add: projectResource_Read_def Let_def implFactory_def implClient_def
        impl_GetProject_absent[OF sent answer absent] AddError_def AppendDiags_def)
qed

theorem project_read_absent_is_error_witness:
  "projectResource_Read
     (implFactory (scriptedRemote [only_projects []]) ''https://cloud.langfuse.com'')
     ([], projectState 30) \<lparr>Diagnostics = [], State = Some (projectState 30)\<rparr> []
   = (\<lparr>Diagnostics = [Diagnostic SeverityError ''Error reading project''
                          ''cannot find project with ID proj-123''],
       State = Some (projectState 30)\<rparr>,
      [\<lparr>rq_method = ''GET'', rq_host = ''https://cloud.langfuse.com'',
        rq_path = ''api/public/organizations/projects'',
        rq_username = ''pub-key'', rq_password = ''priv-key'', rq_body = NoBody\<rparr>])"
proof -
  have pre: "\<not> HasError (Append (Diagnostics
               \<lparr>Diagnostics = [], State = Some (projectState 30)\<rparr>) [])"
    by (simp add: HasError_def)
  have sent: "makeRequest (scriptedRemote [only_projects []])
             (NewOrganizationClient ''https://cloud.langfuse.com''
                (ValueString (pm_OrganizationPublicKey (projectState 30)))
                (ValueString (pm_OrganizationPrivateKey (projectState 30))))
             ''GET'' ''api/public/organizations/projects'' NoBody []
     = (Inr (only_projects []),
        [\<lparr>rq_method = ''GET'', rq_host = ''https://cloud.langfuse.com'',
          rq_path = ''api/public/organizations/projects'',
          rq_username = ''pub-key'', rq_password = ''priv-key'', rq_body = NoBody\<rparr>])"
    by (simp add: makeRequest_def scriptedRemote_def NewOrganizationClient_def projectState_def)
  have answer: "as_listProjectsResponse (only_projects []) = Inr []"
    by (simp add: only_projects_def)
  have absent: "find (\<lambda>proj. p_ID proj = ValueString (pm_ID (projectState 30))) [] = None"
    by simp
  from project_read_absent_is_error[OF pre sent answer absent]
  show ?thesis
    by (simp add: projectState_def)
qed

section \<open>Project: the import identifier\<close>

lemma Import_invalid:
  "length (strings_Split req_ID (CHR '','')) \<noteq> 4 \<Longrightarrow>
   projectResource_ImportState r req_ID resp w =
     (AddError ''Invalid import format''
        ''Import ID must be in format: project_id,organization_id,organization_public_key,organization_private_key''
        resp, w)"
  by (simp add: projectResource_ImportState_def)

lemma Import_valid:
  "strings_Split req_ID (CHR '','') = [projectID, organizationID, pub, priv] \<Longrightarrow>
   projectResource_ImportState r req_ID resp w =
     (case GetProject (cf_NewOrganizationClient r pub priv) projectID w of
        (Inl err, w1) \<Rightarrow>
          (AddError ''Error importing project''
             (''Could not read project '' @ projectID @ '': '' @ err) resp, w1)
      | (Inr project, w1) \<Rightarrow>
          (if p_Metadata project \<noteq> [] \<and> HasError (Diagnostics resp) then resp
           else resp\<lparr>State := Some
              \<lparr>pm_ID = StringValue projectID,
               pm_Name = StringValue (p_Name project),
               pm_RetentionDays = Int32Value 0,
               pm_Metadata = metadataMap (p_Metadata project),
               pm_OrganizationID = StringValue organizationID,
               pm_OrganizationPublicKey = StringValue pub,
               pm_OrganizationPrivateKey = StringValue priv\<rparr>\<rparr>, w1))"
  by (simp add: projectResource_ImportState_def Let_def project_ImportStatePassthroughID_def
      State_Set_def conversionStops_iff split: prod.splits sum.splits)

text \<open>
  Claim C4. Project ImportState splits the identifier at the commas; the number of fields
  is the number of commas plus one. When there are not exactly 4 fields, the import adds
  the error with the summary \<^verbatim>\<open>Invalid import format\<close>, leaves the state as it was and makes
  no call through the gateway (the world is unchanged and the log of calls is empty). With
  exactly 4 fields it makes one call, \<^verbatim>\<open>GetProject\<close> of the first field on the client made
  for the key pair in the third and fourth fields. When that call returns a project and
  the response it was given holds no error (the host hands ImportState a fresh response),
  the import adds no diagnostic and stores the record with \<open>retention_days = 0\<close>, the
  organization and the key pair of the identifier, and the project's name and metadata.
  (On a response that already holds an error, a project with metadata makes the import
  return at the check after the conversion of the metadata, with nothing stored.)
\<close>

theorem project_import_format:
  assumes "parts = strings_Split req_ID (CHR '','')"
    and "imported = projectResource_ImportState (recordingFactory f) req_ID resp (w, [])"
  shows "length parts = Suc (count_list req_ID (CHR '',''))
    \<and> (length parts \<noteq> 4 \<longrightarrow>
          snd imported = (w, [])
          \<and> State (fst imported) = State resp
          \<and> HasError (Diagnostics (fst imported))
          \<and> Diagnostic SeverityError ''Invalid import format''
                ''Import ID must be in format: project_id,organization_id,organization_public_key,organization_private_key''
              \<in> set (Diagnostics (fst imported)))
    \<and> (\<forall>projectID organizationID pub priv.
          parts = [projectID, organizationID, pub, priv] \<longrightarrow>
            snd (snd imported) = [((pub, priv), Call_GetProject projectID)]
          \<and> (\<forall>project w1.
                GetProject (cf_NewOrganizationClient f pub priv) projectID w = (Inr project, w1) \<longrightarrow>
                  (\<not> HasError (Diagnostics resp) \<longrightarrow>
                     Diagnostics (fst imported) = Diagnostics resp
                   \<and> State (fst imported) = Some
                       \<lparr>pm_ID = StringValue projectID,
                        pm_Name = StringValue (p_Name project),
                        pm_RetentionDays = Int32Value 0,
                        pm_Metadata = metadataMap (p_Metadata project),
                        pm_OrganizationID = StringValue organizationID,
                        pm_OrganizationPublicKey = StringValue pub,
                        pm_OrganizationPrivateKey = StringValue priv\<rparr>)
                \<and> (HasError (Diagnostics resp) \<and> p_Metadata project \<noteq> [] \<longrightarrow>
                     fst imported = resp)))"
proof (intro conjI impI allI)
  show "length parts = Suc (count_list req_ID (CHR '',''))"
    by (simp add: assms(1) length_strings_Split)
next
  assume bad: "length parts \<noteq> 4"
  then have eq: "imported = (AddError ''Invalid import format''
        ''Import ID must be in format: project_id,organization_id,organization_public_key,organization_private_key''
        resp, (w, []))"
    unfolding assms by (rule Import_invalid)
  show "snd imported = (w, [])" by (simp add: eq)
  show "State (fst imported) = State resp" by (simp add: eq State_AddError)
  show "HasError (Diagnostics (fst imported))" by (simp add: eq HasError_AddError)
  show "Diagnostic SeverityError ''Invalid import format''
                ''Import ID must be in format: project_id,organization_id,organization_public_key,organization_private_key''
              \<in> set (Diagnostics (fst imported))"
    by (simp only: eq fst_conv in_AddError)
next
  fix projectID organizationID pub priv
  assume p: "parts = [projectID, organizationID, pub, priv]"
  note unf = Import_valid[OF p[unfolded assms(1)], of "recordingFactory f" resp "(w, [])"]
  show "snd (snd imported) = [((pub, priv), Call_GetProject projectID)]"
    unfolding assms(2) unf
    by (simp add: recordingFactory_def recordingClient_def recorded_def
        split: prod.splits sum.splits)
  fix project w1
  assume "GetProject (cf_NewOrganizationClient f pub priv) projectID w = (Inr project, w1)"
  then have eq: "imported =
           (if p_Metadata project \<noteq> [] \<and> HasError (Diagnostics resp) then resp
            else resp\<lparr>State := Some
              \<lparr>pm_ID = StringValue projectID,
               pm_Name = StringValue (p_Name project),
               pm_RetentionDays = Int32Value 0,
               pm_Metadata = metadataMap (p_Metadata project),
               pm_OrganizationID = StringValue organizationID,
               pm_OrganizationPublicKey = StringValue pub,
               pm_OrganizationPrivateKey = StringValue priv\<rparr>\<rparr>,
            (w1, [((pub, priv), Call_GetProject projectID)]))"
    unfolding assms(2) unf
    by (simp add: recordingFactory_def recordingClient_def recorded_def)
  show "fst imported = resp" if "HasError (Diagnostics resp) \<and> p_Metadata project \<noteq> []"
    using that by (simp add: eq)
  assume ne: "\<not> HasError (Diagnostics resp)"
  show "Diagnostics (fst imported) = Diagnostics resp" by (simp add: eq ne)
  show "State (fst imported) = Some
                    \<lparr>pm_ID = StringValue projectID,
                     pm_Name = StringValue (p_Name project),
                     pm_RetentionDays = Int32Value 0,
                     pm_Metadata = metadataMap (p_Metadata project),
                     pm_OrganizationID = StringValue organizationID,
                     pm_OrganizationPublicKey = StringValue pub,
                     pm_OrganizationPrivateKey = StringValue priv\<rparr>"
    by (simp add: eq ne)
qed

theorem project_import_format_witness:
  "projectResource_ImportState
       (recordingFactory (implFactory (scriptedRemote [only_projects [remoteProject]])
          ''https://cloud.langfuse.com''))
       ''just-project-id'' emptyResponse ([], [])
     = (\<lparr>Diagnostics = [Diagnostic SeverityError ''Invalid import format''
           ''Import ID must be in format: project_id,organization_id,organization_public_key,organization_private_key''],
         State = None\<rparr>, ([], []))
   \<and> snd (snd (projectResource_ImportState
       (recordingFactory (implFactory (scriptedRemote [only_projects [remoteProject]])
          ''https://cloud.langfuse.com''))
       ''proj-123,org-456,pk-789,sk-012'' emptyResponse ([], [])))
     = [((''pk-789'', ''sk-012''), Call_GetProject ''proj-123'')]
   \<and> State (fst (projectResource_ImportState
       (recordingFactory (implFactory (scriptedRemote [only_projects [remoteProject]])
          ''https://cloud.langfuse.com''))
       ''proj-123,org-456,pk-789,sk-012'' emptyResponse ([], [])))
     = Some \<lparr>pm_ID = StringValue ''proj-123'', pm_Name = StringValue ''test-project'',
             pm_RetentionDays = Int32Value 0, pm_Metadata = MapValue [(''test'', ''value'')],
             pm_OrganizationID = StringValue ''org-456'',
             pm_OrganizationPublicKey = StringValue ''pk-789'',
             pm_OrganizationPrivateKey = StringValue ''sk-012''\<rparr>
   \<and> fst (projectResource_ImportState
       (recordingFactory (implFactory (scriptedRemote [only_projects [remoteProject]])
          ''https://cloud.langfuse.com''))
       ''proj-123,org-456,pk-789,sk-012''
       \<lparr>Diagnostics = [Diagnostic SeverityError ''earlier'' ''failure''], State = None\<rparr>
       ([], []))
     = \<lparr>Diagnostics = [Diagnostic SeverityError ''earlier'' ''failure''], State = None\<rparr>"
proof -
  let ?f = "implFactory (scriptedRemote [only_projects [remoteProject]])
              ''https://cloud.langfuse.com''"
  let ?failed = "\<lparr>Diagnostics = [Diagnostic SeverityError ''earlier'' ''failure''],
                  State = None :: projectResourceModel option\<rparr>"
  have one: "strings_Split ''just-project-id'' (CHR '','') = [''just-project-id'']"
    by (simp add: strings_Split_def)
  have four: "strings_Split ''proj-123,org-456,pk-789,sk-012'' (CHR '','')
                = [''proj-123'', ''org-456'', ''pk-789'', ''sk-012'']"
    by (simp add: strings_Split_def)
  have get: "GetProject (cf_NewOrganizationClient ?f ''pk-789'' ''sk-012'') ''proj-123'' []
     = (Inr remoteProject,
        [\<lparr>rq_method = ''GET'', rq_host = ''https://cloud.langfuse.com'',
          rq_path = ''api/public/organizations/projects'',
          rq_username = ''pk-789'', rq_password = ''sk-012'', rq_body = NoBody\<rparr>])"
    by (simp add: remote_evals remoteProject_def)
  have fresh: "\<not> HasError (Diagnostics (emptyResponse :: projectResourceModel response))"
    by (simp add: emptyResponse_def HasError_def)
  have failed: "HasError (Diagnostics ?failed) \<and> p_Metadata remoteProject \<noteq> []"
    by (simp add: HasError_def remoteProject_def)
  note A = project_import_format[OF refl refl, where req_ID = "''just-project-id''"
      and f = ?f and w = "[]"
      and resp = "emptyResponse :: projectResourceModel response"]
  note B = project_import_format[OF refl refl,
      where req_ID = "''proj-123,org-456,pk-789,sk-012''" and f = ?f and w = "[]"
      and resp = "emptyResponse :: projectResourceModel response"]
  note C = project_import_format[OF refl refl,
      where req_ID = "''proj-123,org-456,pk-789,sk-012''" and f = ?f and w = "[]"
      and resp = ?failed]
  have a: "projectResource_ImportState (recordingFactory ?f)
       ''just-project-id'' emptyResponse ([], [])
     = (\<lparr>Diagnostics = [Diagnostic SeverityError ''Invalid import format''
           ''Import ID must be in format: project_id,organization_id,organization_public_key,organization_private_key''],
         State = None\<rparr>, ([], []))"
    using A unfolding one
    by (simp add: Import_invalid one AddError_def emptyResponse_def)
  from B[unfolded four] get fresh
  have b: "snd (snd (projectResource_ImportState (recordingFactory ?f)
       ''proj-123,org-456,pk-789,sk-012'' emptyResponse ([], [])))
     = [((''pk-789'', ''sk-012''), Call_GetProject ''proj-123'')]
   \<and> State (fst (projectResource_ImportState
       (recordingFactory ?f) ''proj-123,org-456,pk-789,sk-012'' emptyResponse ([], [])))
     = Some \<lparr>pm_ID = StringValue ''proj-123'', pm_Name = StringValue ''test-project'',
             pm_RetentionDays = Int32Value 0, pm_Metadata = MapValue [(''test'', ''value'')],
             pm_OrganizationID = StringValue ''org-456'',
             pm_OrganizationPublicKey = StringValue ''pk-789'',
             pm_OrganizationPrivateKey = StringValue ''sk-012''\<rparr>"
    by (simp add: remoteProject_def metadataMap_def)
  from C[unfolded four] get failed
  have c: "fst (projectResource_ImportState (recordingFactory ?f)
       ''proj-123,org-456,pk-789,sk-012'' ?failed ([], [])) = ?failed"
    by simp
  from a b c show ?thesis by simp
qed

section \<open>Membership: Delete tolerates an unreliable success flag\<close>

lemma Contains_ToLower:
  "strings_Contains (strings_ToLower s) word \<longleftrightarrow> (\<exists>u. sublist u s \<and> strings_ToLower u = word)"
  by (simp add: strings_Contains_sublist strings_ToLower_def sublist_map_iff)

lemma tolerated_iff:
  "(\<exists>u. sublist u message \<and> strings_ToLower u \<in> {''deleted'', ''removed''})
     \<longleftrightarrow> strings_Contains (strings_ToLower message) ''deleted''
          \<or> strings_Contains (strings_ToLower message) ''removed''"
  unfolding Contains_ToLower by auto

lemma Delete_valid:
  "\<not> HasError (Append (Diagnostics resp) ds) \<Longrightarrow>
   organizationMembershipResource_Delete r (ds, state) resp w =
     (case RemoveMember (clientFor r state) (ValueString (mm_UserID state)) w of
        (Some err, w1) \<Rightarrow> (AddError ''Error removing member'' err (AppendDiags ds resp), w1)
      | (None, w1) \<Rightarrow> (AppendDiags ds resp, w1))"
  by (simp add: organizationMembershipResource_Delete_def Let_def AppendDiags_def clientFor_def
      split: prod.splits option.splits)

text \<open>
  Claim C5. When the remote answers the delete request with \<^verbatim>\<open>success = false\<close> and a
  message, membership Delete surfaces no error if and only if the message contains
  \<^verbatim>\<open>deleted\<close> or \<^verbatim>\<open>removed\<close> in any mix of upper and lower case letters (some contiguous
  part of the message is one of the two words once lowered); it then returns the response
  as it was after reading the state. For any other message the one error of the response
  is \<^verbatim>\<open>Error removing member\<close>, whose detail ends with the remote's message. (The state is
  read without errors, the request is built and the remote answers it.)
\<close>

theorem membership_delete_tolerance:
  assumes pre: "\<not> HasError (Append (Diagnostics resp) ds)"
    and sent: "makeRequest rem
             (NewOrganizationClient h (ValueString (mm_OrganizationPublicKey state))
                (ValueString (mm_OrganizationPrivateKey state)))
             ''DELETE'' ''api/public/organizations/memberships''
             (RemoveMemberBody (ValueString (mm_UserID state))) w = (Inr answer, w1)"
    and answer: "as_removeMemberResponse answer = Inr \<lparr>rm_Success = False, rm_Message = message\<rparr>"
    and deleted: "deleted = fst (organizationMembershipResource_Delete (implFactory rem h)
                                 (ds, state) resp w)"
    and tolerated: "tolerated = (\<exists>u. sublist u message
                                   \<and> strings_ToLower u \<in> {''deleted'', ''removed''})"
  shows "(Errors (Diagnostics deleted) = []) = tolerated
       \<and> (tolerated \<longrightarrow> deleted = AppendDiags ds resp)
       \<and> (\<not> tolerated \<longrightarrow>
            Errors (Diagnostics deleted)
              = [Diagnostic SeverityError ''Error removing member''
                   (''failed to remove member with ID '' @ ValueString (mm_UserID state) @ '': ''
                    @ message)])
       \<and> sublist message
            (''failed to remove member with ID '' @ ValueString (mm_UserID state) @ '': '' @ message)"
proof -
  have ne: "\<not> HasError (Diagnostics (AppendDiags ds resp))"
    using pre by (simp add: AppendDiags_def)
  have tol: "tolerated \<longleftrightarrow> strings_Contains (strings_ToLower message) ''deleted''
                          \<or> strings_Contains (strings_ToLower message) ''removed''"
    unfolding tolerated by (rule tolerated_iff)
  have rm: "RemoveMember (clientFor (implFactory rem h) state) (ValueString (mm_UserID state)) w
      = (if tolerated then None
         else Some (''failed to remove member with ID '' @ ValueString (mm_UserID state) @ '': ''
                    @ message), w1)"
    by (simp add: clientFor_impl implClient_def impl_RemoveMember_def sent answer tol)
  have incl: "sublist message
            (''failed to remove member with ID '' @ ValueString (mm_UserID state) @ '': '' @ message)"
    unfolding sublist_def
    by (rule exI[of _ "''failed to remove member with ID '' @ ValueString (mm_UserID state) @ '': ''"],
        rule exI[of _ "[]"]) simp
  show ?thesis
  proof (cases tolerated)
    case True
    then show ?thesis
      using ne incl unfolding deleted Delete_valid[OF pre] rm
      by (simp add: Errors_empty)
  next
    case False
    then show ?thesis
      using ne incl unfolding deleted Delete_valid[OF pre] rm
      by (simp add: Errors_AddError)
  qed
qed


theorem membership_delete_tolerance_witness:
  "fst (organizationMembershipResource_Delete
          (implFactory (scriptedRemote [only_removed False ''Member removed successfully''])
             ''https://cloud.langfuse.com'')
          ([], aliceState ''m-1'') \<lparr>Diagnostics = [], State = Some (aliceState ''m-1'')\<rparr> [])
     = \<lparr>Diagnostics = [], State = Some (aliceState ''m-1'')\<rparr>
   \<and> Errors (Diagnostics (fst (organizationMembershipResource_Delete
          (implFactory (scriptedRemote [only_removed False ''User is not a member''])
             ''https://cloud.langfuse.com'')
          ([], aliceState ''m-1'') \<lparr>Diagnostics = [], State = Some (aliceState ''m-1'')\<rparr> [])))
     = [Diagnostic SeverityError ''Error removing member''
          ''failed to remove member with ID u-42: User is not a member'']"
proof -
  let ?resp = "\<lparr>Diagnostics = [], State = Some (aliceState ''m-1'')\<rparr>"
  let ?delete = "\<lparr>rq_method = ''DELETE'', rq_host = ''https://cloud.langfuse.com'',
        rq_path = ''api/public/organizations/memberships'',
        rq_username = ''pk-1'', rq_password = ''sk-1'', rq_body = RemoveMemberBody ''u-42''\<rparr>"
  have pre: "\<not> HasError (Append (Diagnostics ?resp) [])"
    by (simp add: HasError_def)
  have sent: "makeRequest (scriptedRemote [only_removed False msg])
             (NewOrganizationClient ''https://cloud.langfuse.com''
                (ValueString (mm_OrganizationPublicKey (aliceState ''m-1'')))
                (ValueString (mm_OrganizationPrivateKey (aliceState ''m-1''))))
             ''DELETE'' ''api/public/organizations/memberships''
             (RemoveMemberBody (ValueString (mm_UserID (aliceState ''m-1'')))) []
           = (Inr (only_removed False msg), [?delete])" for msg
    by (simp add: makeRequest_def scriptedRemote_def NewOrganizationClient_def aliceState_def)
  have answer: "as_removeMemberResponse (only_removed False msg)
                  = Inr \<lparr>rm_Success = False, rm_Message = msg\<rparr>" for msg
    by (simp add: only_removed_def)
  have yes: "\<exists>u. sublist u ''Member removed successfully''
                 \<and> strings_ToLower u \<in> {''deleted'', ''removed''}"
    unfolding tolerated_iff by code_simp
  have no: "\<not> (\<exists>u. sublist u ''User is not a member''
                 \<and> strings_ToLower u \<in> {''deleted'', ''removed''})"
    unfolding tolerated_iff by code_simp
  from membership_delete_tolerance[OF pre sent answer refl refl, of "''Member removed successfully''"] yes
  have a: "fst (organizationMembershipResource_Delete
          (implFactory (scriptedRemote [only_removed False ''Member removed successfully''])
             ''https://cloud.langfuse.com'')
          ([], aliceState ''m-1'') ?resp []) = ?resp"
    by (simp add: AppendDiags_def)
  from membership_delete_tolerance[OF pre sent answer refl refl, of "''User is not a member''"] no
  have b: "Errors (Diagnostics (fst (organizationMembershipResource_Delete
          (implFactory (scriptedRemote [only_removed False ''User is not a member''])
             ''https://cloud.langfuse.com'')
          ([], aliceState ''m-1'') ?resp [])))
     = [Diagnostic SeverityError ''Error removing member''
          ''failed to remove member with ID u-42: User is not a member'']"
    by (simp add: aliceState_def)
  from a b show ?thesis by (rule conjI)
qed

section \<open>Membership: Create for an email that is already a member\<close>

lemma clientFor_recording:
  "clientFor (recordingFactory f) m =
     recordingClient (ValueString (mm_OrganizationPublicKey m),
                      ValueString (mm_OrganizationPrivateKey m)) (clientFor f m)"
  by (simp add: clientFor_def recordingFactory_def)

text \<open>
  Claim C1, where the code differs. Create stores the role of the membership that the
  role update returned, not the declared role: a remote that answers the update with the
  role \<^verbatim>\<open>MEMBER\<close> for the declared role \<^verbatim>\<open>ADMIN\<close> leaves \<^verbatim>\<open>MEMBER\<close> in the record.
\<close>

theorem create_existing_member_role_counterexample:
  "mm_Role (alicePlan ''ADMIN'') = StringValue ''ADMIN''
   \<and> map_option mm_Role (State (fst (organizationMembershipResource_Create
        (implFactory (scriptedRemote
           [only_memberships [alice], only_memberships [alice], only_membership alice])
           ''https://cloud.langfuse.com'')
        ([], alicePlan ''ADMIN'') emptyResponse [])))
     = Some (StringValue ''MEMBER'')"
  by (simp add: organizationMembershipResource_Create_def remote_evals adapter_evals alice_def alicePlan_def)

text \<open>
  Claim C1, as amended. When the plan is read without errors, its role is valid and the
  first listing returns a membership with the plan's email (\<open>existing\<close>, the first such
  entry), Create makes exactly two calls through the gateway interface: the listing and one
  \<^verbatim>\<open>UpdateMembership\<close> for the existing membership's identifier, whose request carries the
  existing user's identifier and the declared role. It makes no \<^verbatim>\<open>CreateSCIMUser\<close> call. If
  that update returns a membership, Create ends without error and the role stored in the
  record is the role of the returned membership.
\<close>

theorem create_existing_member_calls:
  assumes pre: "\<not> HasError (Append (Diagnostics resp) ds)"
               "isValidRole (ValueString (mm_Role plan))"
    and list: "ListMemberships (clientFor f plan) w = (Inr memberships, w1)"
    and ex: "find (\<lambda>m. om_Email m = ValueString (mm_Email plan)) memberships = Some existing"
    and keys: "keys = (ValueString (mm_OrganizationPublicKey plan),
                       ValueString (mm_OrganizationPrivateKey plan))"
    and request: "request = \<lparr>um_UserID = om_UserID existing, um_Email = [],
                             um_Role = ValueString (mm_Role plan)\<rparr>"
    and created: "created = organizationMembershipResource_Create (recordingFactory f)
                              (ds, plan) resp (w, [])"
  shows "snd (snd created)
           = [(keys, Call_ListMemberships),
              (keys, Call_UpdateMembership (om_ID existing) request)]
       \<and> filter is_CreateSCIMUser (snd (snd created)) = []
       \<and> length (filter is_UpdateMembership (snd (snd created))) = 1
       \<and> (\<forall>membership w2.
             UpdateMembership (clientFor f plan) (om_ID existing) request w1
               = (Inr membership, w2) \<longrightarrow>
             \<not> HasError (Diagnostics (fst created))
             \<and> map_option mm_Role (State (fst created)) = Some (StringValue (om_Role membership)))"
proof -
  let ?c = "recordingClient keys (clientFor f plan)"
  have l: "ListMemberships ?c (w, []) = (Inr memberships, (w1, [(keys, Call_ListMemberships)]))"
    by (simp add: recordingClient_def recorded_def list)
  have u: "UpdateMembership ?c (om_ID existing) request (w1, [(keys, Call_ListMemberships)])
      = (fst (UpdateMembership (clientFor f plan) (om_ID existing) request w1),
         (snd (UpdateMembership (clientFor f plan) (om_ID existing) request w1),
          [(keys, Call_ListMemberships), (keys, Call_UpdateMembership (om_ID existing) request)]))"
    by (simp add: recordingClient_def recorded_def split: prod.splits)
  have ne: "\<not> HasError (Diagnostics (AppendDiags ds resp))"
    using pre(1) by (simp add: AppendDiags_def)
  show ?thesis
    unfolding created Create_valid[OF pre] Let_def clientFor_def[symmetric] clientFor_recording
      keys[symmetric]
    using ne
    by (simp add: l ex u request[symmetric] is_CreateSCIMUser_def is_UpdateMembership_def
        State_State_Set Diagnostics_State_Set mm_Role_planWith
        split: prod.splits sum.splits)
qed


theorem create_existing_member_calls_witness:
  "snd (snd (organizationMembershipResource_Create
       (recordingFactory (implFactory (scriptedRemote
           [only_memberships [alice], only_memberships [alice],
            only_membership (alice\<lparr>om_Role := ''ADMIN''\<rparr>)])
           ''https://cloud.langfuse.com''))
       ([], alicePlan ''ADMIN'') emptyResponse ([], [])))
     = [((''pk-1'', ''sk-1''), Call_ListMemberships),
        ((''pk-1'', ''sk-1''),
         Call_UpdateMembership ''m-1''
           \<lparr>um_UserID = ''u-42'', um_Email = [], um_Role = ''ADMIN''\<rparr>)]
   \<and> map_option mm_Role (State (fst (organizationMembershipResource_Create
       (recordingFactory (implFactory (scriptedRemote
           [only_memberships [alice], only_memberships [alice],
            only_membership (alice\<lparr>om_Role := ''ADMIN''\<rparr>)])
           ''https://cloud.langfuse.com''))
       ([], alicePlan ''ADMIN'') emptyResponse ([], []))))
     = Some (StringValue ''ADMIN'')"
proof -
  let ?f = "implFactory (scriptedRemote
           [only_memberships [alice], only_memberships [alice],
            only_membership (alice\<lparr>om_Role := ''ADMIN''\<rparr>)])
           ''https://cloud.langfuse.com''"
  let ?get = "\<lparr>rq_method = ''GET'', rq_host = ''https://cloud.langfuse.com'',
        rq_path = ''api/public/organizations/memberships'',
        rq_username = ''pk-1'', rq_password = ''sk-1'', rq_body = NoBody\<rparr>"
  let ?put = "\<lparr>rq_method = ''PUT'', rq_host = ''https://cloud.langfuse.com'',
        rq_path = ''api/public/organizations/memberships'',
        rq_username = ''pk-1'', rq_password = ''sk-1'',
        rq_body = UpdateMembershipBody
          \<lparr>um_UserID = ''u-42'', um_Email = [], um_Role = ''ADMIN''\<rparr>\<rparr>"
  have pre1: "\<not> HasError (Append (Diagnostics
                (emptyResponse :: organizationMembershipResourceModel response)) [])"
    by (simp add: emptyResponse_def HasError_def)
  have pre2: "isValidRole (ValueString (mm_Role (alicePlan ''ADMIN'')))"
    by (simp add: alicePlan_def isValidRole_def validRoles_def)
  have list: "ListMemberships (clientFor ?f (alicePlan ''ADMIN'')) [] = (Inr [alice], [?get])"
    by (simp add: clientFor_def remote_evals alicePlan_def)
  have ex: "find (\<lambda>m. om_Email m = ValueString (mm_Email (alicePlan ''ADMIN''))) [alice]
              = Some alice"
    by (simp add: alice_def alicePlan_def)
  have upd: "UpdateMembership (clientFor ?f (alicePlan ''ADMIN'')) (om_ID alice)
               \<lparr>um_UserID = om_UserID alice, um_Email = [],
                um_Role = ValueString (mm_Role (alicePlan ''ADMIN''))\<rparr> [?get]
             = (Inr (alice\<lparr>om_Role := ''ADMIN''\<rparr>), [?get, ?get, ?put])"
    by (simp add: clientFor_def remote_evals alicePlan_def alice_def)
  note T = create_existing_member_calls[OF pre1 pre2 list ex refl refl refl]
  from T upd show ?thesis
    by (simp add: alice_def alicePlan_def)
qed

section \<open>Membership: the identifier of the record\<close>

text \<open>
  The gateway's role update in terms of the remote's two answers: the listing, and the
  answer to the \<^verbatim>\<open>PUT\<close>, whose empty \<^verbatim>\<open>ID\<close> the gateway fills with the identifier it was
  called with.
\<close>

lemma impl_GetMembership_listed:
  assumes "impl_ListMemberships rem c w = (Inr memberships, w1)"
    and "find (\<lambda>m. om_ID m = membershipID \<or> om_UserID m = membershipID) memberships = Some current"
  shows "impl_GetMembership rem c membershipID w = (Inr current, w1)"
  using assms by (simp add: impl_GetMembership_def)

lemma impl_UpdateMembership_answered:
  assumes "impl_ListMemberships rem c w = (Inr memberships, w1)"
    and "find (\<lambda>m. om_ID m = membershipID \<or> om_UserID m = membershipID) memberships = Some current"
    and "putMembership rem c
           \<lparr>um_UserID = (if um_UserID request = [] then om_UserID current else um_UserID request),
            um_Email = [], um_Role = um_Role request\<rparr> w1 = (Inr updated, w2)"
  shows "impl_UpdateMembership rem c membershipID request w
           = (Inr (if om_ID updated = [] then updated\<lparr>om_ID := membershipID\<rparr> else updated), w2)"
proof (cases "um_UserID request = []")
  case True
  with assms(3) show ?thesis
    by (auto simp: impl_UpdateMembership_def impl_GetMembership_listed[OF assms(1,2)] Let_def
        putMembership_def split: prod.splits sum.splits)
next
  case False
  with assms(3) show ?thesis
    by (auto simp: impl_UpdateMembership_def impl_GetMembership_listed[OF assms(1,2)] Let_def
        putMembership_def split: prod.splits sum.splits)
qed

lemma mm_ID_planWith_filled:
  "mm_ID (planWith plan (if om_ID updated = [] then updated\<lparr>om_ID := membershipID\<rparr> else updated))
     = StringValue (spec_fallback_id (om_ID updated)
                      (spec_fallback_id membershipID (om_UserID updated)))"
  by (simp add: planWith_def spec_fallback_id_def Let_def)

text \<open>
  Claim C7, where the code differs. In Create and Update the fallback is not applied to
  the remote's answer as it came: the gateway first fills an empty \<^verbatim>\<open>ID\<close> of the answer
  with the identifier the role update was called with. A remote answer with an empty
  \<^verbatim>\<open>id\<close> and the \<^verbatim>\<open>user_id\<close> \<^verbatim>\<open>u-42\<close>, for a membership listed with the \<^verbatim>\<open>id\<close> \<^verbatim>\<open>m-1\<close>, is stored
  under the identifier \<^verbatim>\<open>m-1\<close>, by Update and by Create.
\<close>

theorem membership_identifier_counterexample:
  "om_ID (alice\<lparr>om_ID := [], om_Role := ''ADMIN''\<rparr>) = []
   \<and> om_UserID (alice\<lparr>om_ID := [], om_Role := ''ADMIN''\<rparr>) = ''u-42''
   \<and> map_option mm_ID (State (fst (organizationMembershipResource_Update
        (implFactory (scriptedRemote
           [only_memberships [alice],
            only_membership (alice\<lparr>om_ID := [], om_Role := ''ADMIN''\<rparr>)])
           ''https://cloud.langfuse.com'')
        ([], alicePlan ''ADMIN'') ([], aliceState ''m-1'')
        \<lparr>Diagnostics = [], State = Some (aliceState ''m-1'')\<rparr> [])))
     = Some (StringValue ''m-1'')
   \<and> map_option mm_ID (State (fst (organizationMembershipResource_Create
        (implFactory (scriptedRemote
           [only_memberships [alice], only_memberships [alice],
            only_membership (alice\<lparr>om_ID := [], om_Role := ''ADMIN''\<rparr>)])
           ''https://cloud.langfuse.com'')
        ([], alicePlan ''ADMIN'') emptyResponse [])))
     = Some (StringValue ''m-1'')"
  by (simp add: organizationMembershipResource_Update_def organizationMembershipResource_Create_def
      remote_evals adapter_evals alice_def alicePlan_def aliceState_def)

text \<open>
  Claim C7, as amended. Through the repository's gateway, every membership operation that
  stores a record resolves its identifier by fallback over what the remote answered.
  Read stores the \<^verbatim>\<open>ID\<close> of the listed membership (the first whose \<^verbatim>\<open>ID\<close> or \<^verbatim>\<open>UserID\<close> is
  the record's identifier) when it is not empty, else its \<^verbatim>\<open>UserID\<close>. Update and Create
  store the \<^verbatim>\<open>ID\<close> of the remote's answer to the role update when it is not empty, else the
  identifier the role update was called with when that is not empty (the record's
  identifier in Update, the \<^verbatim>\<open>ID\<close> of the listed membership in Create: the one with the
  plan's email, or the one of the newly created user), else the \<^verbatim>\<open>UserID\<close> of the answer.
  So an answer with an empty \<^verbatim>\<open>ID\<close> and the \<^verbatim>\<open>UserID\<close> \<^verbatim>\<open>u-42\<close> gives the identifier \<^verbatim>\<open>u-42\<close>
  exactly when the identifier the update was called with is empty or \<^verbatim>\<open>u-42\<close> itself.
  (Plan and state are read without errors and the role is valid.)
\<close>

theorem membership_identifier_resolution:
  assumes cS: "cS = NewOrganizationClient h (ValueString (mm_OrganizationPublicKey state))
                      (ValueString (mm_OrganizationPrivateKey state))"
    and cP: "cP = NewOrganizationClient h (ValueString (mm_OrganizationPublicKey plan))
                      (ValueString (mm_OrganizationPrivateKey plan))"
    and ident: "ident = ValueString (mm_ID state)"
    and email: "email = ValueString (mm_Email plan)"
    and role: "role = ValueString (mm_Role plan)"
    and valid: "isValidRole role"
    and refreshed: "refreshed = fst (organizationMembershipResource_Read (implFactory rem h)
                                      (ds', state) resp w)"
    and updated: "updated = fst (organizationMembershipResource_Update (implFactory rem h)
                                   (ds, plan) (ds', state) resp w)"
    and created: "created = fst (organizationMembershipResource_Create (implFactory rem h)
                                   (ds, plan) resp w)"
  shows
    "(\<forall>memberships w1 current.
        \<not> HasError (Append (Diagnostics resp) ds')
        \<and> impl_ListMemberships rem cS w = (Inr memberships, w1)
        \<and> find (\<lambda>m. om_ID m = ident \<or> om_UserID m = ident) memberships = Some current \<longrightarrow>
        map_option mm_ID (State refreshed)
          = Some (StringValue (spec_fallback_id (om_ID current) (om_UserID current))))
   \<and> (\<forall>memberships w1 current answer w2.
        \<not> HasError (Append (Append (Diagnostics resp) ds) ds')
        \<and> impl_ListMemberships rem cS w = (Inr memberships, w1)
        \<and> find (\<lambda>m. om_ID m = ident \<or> om_UserID m = ident) memberships = Some current
        \<and> putMembership rem cS
             \<lparr>um_UserID = om_UserID current, um_Email = [], um_Role = role\<rparr> w1
            = (Inr answer, w2) \<longrightarrow>
        map_option mm_ID (State updated)
          = Some (StringValue (spec_fallback_id (om_ID answer)
                                 (spec_fallback_id ident (om_UserID answer)))))
   \<and> (\<forall>memberships w1 existing memberships2 w2 current answer w3.
        \<not> HasError (Append (Diagnostics resp) ds)
        \<and> impl_ListMemberships rem cP w = (Inr memberships, w1)
        \<and> find (\<lambda>m. om_Email m = email) memberships = Some existing
        \<and> impl_ListMemberships rem cP w1 = (Inr memberships2, w2)
        \<and> find (\<lambda>m. om_ID m = om_ID existing \<or> om_UserID m = om_ID existing) memberships2
            = Some current
        \<and> putMembership rem cP
             \<lparr>um_UserID = (if om_UserID existing = [] then om_UserID current
                             else om_UserID existing),
              um_Email = [], um_Role = role\<rparr> w2
            = (Inr answer, w3) \<longrightarrow>
        map_option mm_ID (State created)
          = Some (StringValue (spec_fallback_id (om_ID answer)
                                 (spec_fallback_id (om_ID existing) (om_UserID answer)))))
   \<and> (\<forall>memberships w1 scimUser w2 memberships2 w3 newMembership memberships3 w4 current
         answer w5.
        \<not> HasError (Append (Diagnostics resp) ds)
        \<and> impl_ListMemberships rem cP w = (Inr memberships, w1)
        \<and> find (\<lambda>m. om_Email m = email) memberships = None
        \<and> impl_CreateSCIMUser rem cP
             \<lparr>sq_UserName = email, sq_Emails = [(email, True)], sq_Password = [],
              sq_Active = True\<rparr> w1 = (Inr scimUser, w2)
        \<and> impl_ListMemberships rem cP w2 = (Inr memberships2, w3)
        \<and> find (\<lambda>m. om_UserID m = su_ID scimUser) memberships2 = Some newMembership
        \<and> impl_ListMemberships rem cP w3 = (Inr memberships3, w4)
        \<and> find (\<lambda>m. om_ID m = om_ID newMembership \<or> om_UserID m = om_ID newMembership)
              memberships3 = Some current
        \<and> putMembership rem cP
             \<lparr>um_UserID = (if su_ID scimUser = [] then om_UserID current else su_ID scimUser),
              um_Email = [], um_Role = role\<rparr> w4
            = (Inr answer, w5) \<longrightarrow>
        map_option mm_ID (State created)
          = Some (StringValue (spec_fallback_id (om_ID answer)
                                 (spec_fallback_id (om_ID newMembership) (om_UserID answer)))))"
proof (intro conjI allI impI)
  fix memberships w1 current
  assume h: "\<not> HasError (Append (Diagnostics resp) ds')
        \<and> impl_ListMemberships rem cS w = (Inr memberships, w1)
        \<and> find (\<lambda>m. om_ID m = ident \<or> om_UserID m = ident) memberships = Some current"
  then have pre: "\<not> HasError (Append (Diagnostics resp) ds')"
    and got: "impl_GetMembership rem cS ident w = (Inr current, w1)"
    by (simp_all add: impl_GetMembership_listed)
  show "map_option mm_ID (State refreshed)
          = Some (StringValue (spec_fallback_id (om_ID current) (om_UserID current)))"
    unfolding refreshed Read_valid[OF pre] clientFor_impl cS[symmetric] ident[symmetric]
    by (simp add: implClient_def got State_State_Set spec_fallback_id_def)
next
  fix memberships w1 current answer w2
  assume h: "\<not> HasError (Append (Append (Diagnostics resp) ds) ds')
        \<and> impl_ListMemberships rem cS w = (Inr memberships, w1)
        \<and> find (\<lambda>m. om_ID m = ident \<or> om_UserID m = ident) memberships = Some current
        \<and> putMembership rem cS
             \<lparr>um_UserID = om_UserID current, um_Email = [], um_Role = role\<rparr> w1
            = (Inr answer, w2)"
  then have pre: "\<not> HasError (Append (Append (Diagnostics resp) ds) ds')" by simp
  from h have upd: "impl_UpdateMembership rem cS ident
        \<lparr>um_UserID = [], um_Email = [], um_Role = role\<rparr> w
      = (Inr (if om_ID answer = [] then answer\<lparr>om_ID := ident\<rparr> else answer), w2)"
    using impl_UpdateMembership_answered[of rem cS w memberships w1 ident current
        "\<lparr>um_UserID = [], um_Email = [], um_Role = role\<rparr>" answer w2]
    by simp
  show "map_option mm_ID (State updated)
          = Some (StringValue (spec_fallback_id (om_ID answer)
                                 (spec_fallback_id ident (om_UserID answer))))"
    unfolding updated Update_valid[OF pre valid[unfolded role]] clientFor_def[symmetric]
      clientFor_impl cS[symmetric] ident[symmetric] role[symmetric]
    by (simp add: implClient_def upd State_State_Set mm_ID_planWith_filled)
next
  fix memberships w1 existing memberships2 w2 current answer w3
  assume h: "\<not> HasError (Append (Diagnostics resp) ds)
        \<and> impl_ListMemberships rem cP w = (Inr memberships, w1)
        \<and> find (\<lambda>m. om_Email m = email) memberships = Some existing
        \<and> impl_ListMemberships rem cP w1 = (Inr memberships2, w2)
        \<and> find (\<lambda>m. om_ID m = om_ID existing \<or> om_UserID m = om_ID existing) memberships2
            = Some current
        \<and> putMembership rem cP
             \<lparr>um_UserID = (if om_UserID existing = [] then om_UserID current
                             else om_UserID existing),
              um_Email = [], um_Role = role\<rparr> w2
            = (Inr answer, w3)"
  then have pre: "\<not> HasError (Append (Diagnostics resp) ds)" by simp
  from h have upd: "impl_UpdateMembership rem cP (om_ID existing)
        \<lparr>um_UserID = om_UserID existing, um_Email = [], um_Role = role\<rparr> w1
      = (Inr (if om_ID answer = [] then answer\<lparr>om_ID := om_ID existing\<rparr> else answer), w3)"
    using impl_UpdateMembership_answered[of rem cP w1 memberships2 w2 "om_ID existing" current
        "\<lparr>um_UserID = om_UserID existing, um_Email = [], um_Role = role\<rparr>" answer w3]
    by (cases "om_UserID existing = []") auto
  show "map_option mm_ID (State created)
          = Some (StringValue (spec_fallback_id (om_ID answer)
                                 (spec_fallback_id (om_ID existing) (om_UserID answer))))"
    unfolding created Create_valid[OF pre valid[unfolded role]] Let_def clientFor_def[symmetric]
      clientFor_impl cP[symmetric] email[symmetric] role[symmetric]
    using h
    by (simp add: implClient_def upd State_State_Set mm_ID_planWith_filled)
next
  fix memberships w1 scimUser w2 memberships2 w3 newMembership memberships3 w4 current answer w5
  assume h: "\<not> HasError (Append (Diagnostics resp) ds)
        \<and> impl_ListMemberships rem cP w = (Inr memberships, w1)
        \<and> find (\<lambda>m. om_Email m = email) memberships = None
        \<and> impl_CreateSCIMUser rem cP
             \<lparr>sq_UserName = email, sq_Emails = [(email, True)], sq_Password = [],
              sq_Active = True\<rparr> w1 = (Inr scimUser, w2)
        \<and> impl_ListMemberships rem cP w2 = (Inr memberships2, w3)
        \<and> find (\<lambda>m. om_UserID m = su_ID scimUser) memberships2 = Some newMembership
        \<and> impl_ListMemberships rem cP w3 = (Inr memberships3, w4)
        \<and> find (\<lambda>m. om_ID m = om_ID newMembership \<or> om_UserID m = om_ID newMembership)
              memberships3 = Some current
        \<and> putMembership rem cP
             \<lparr>um_UserID = (if su_ID scimUser = [] then om_UserID current else su_ID scimUser),
              um_Email = [], um_Role = role\<rparr> w4
            = (Inr answer, w5)"
  then have pre: "\<not> HasError (Append (Diagnostics resp) ds)" by simp
  from h have upd: "impl_UpdateMembership rem cP (om_ID newMembership)
        \<lparr>um_UserID = su_ID scimUser, um_Email = [], um_Role = role\<rparr> w3
      = (Inr (if om_ID answer = [] then answer\<lparr>om_ID := om_ID newMembership\<rparr> else answer), w5)"
    using impl_UpdateMembership_answered[of rem cP w3 memberships3 w4 "om_ID newMembership"
        current "\<lparr>um_UserID = su_ID scimUser, um_Email = [], um_Role = role\<rparr>" answer w5]
    by (cases "su_ID scimUser = []") auto
  show "map_option mm_ID (State created)
          = Some (StringValue (spec_fallback_id (om_ID answer)
                                 (spec_fallback_id (om_ID newMembership) (om_UserID answer))))"
    unfolding created Create_valid[OF pre valid[unfolded role]] Let_def clientFor_def[symmetric]
      clientFor_impl cP[symmetric] email[symmetric] role[symmetric]
    using h
    by (simp add: implClient_def upd State_State_Set mm_ID_planWith_filled)
qed


theorem membership_identifier_resolution_witness:
  "map_option mm_ID (State (fst (organizationMembershipResource_Read
        (implFactory (scriptedRemote [only_memberships [alice\<lparr>om_ID := []\<rparr>]])
           ''https://cloud.langfuse.com'')
        ([], aliceState ''u-42'') emptyResponse [])))
     = Some (StringValue ''u-42'')
   \<and> map_option mm_ID (State (fst (organizationMembershipResource_Update
        (implFactory (scriptedRemote
           [only_memberships [alice\<lparr>om_ID := []\<rparr>],
            only_membership (alice\<lparr>om_ID := [], om_Role := ''ADMIN''\<rparr>)])
           ''https://cloud.langfuse.com'')
        ([], alicePlan ''ADMIN'') ([], aliceState ''u-42'') emptyResponse [])))
     = Some (StringValue ''u-42'')
   \<and> map_option mm_ID (State (fst (organizationMembershipResource_Update
        (implFactory (scriptedRemote
           [only_memberships [alice],
            only_membership (alice\<lparr>om_ID := ''m-9'', om_Role := ''ADMIN''\<rparr>)])
           ''https://cloud.langfuse.com'')
        ([], alicePlan ''ADMIN'') ([], aliceState ''m-1'') emptyResponse [])))
     = Some (StringValue ''m-9'')
   \<and> map_option mm_ID (State (fst (organizationMembershipResource_Create
        (implFactory (scriptedRemote
           [only_memberships [alice\<lparr>om_ID := []\<rparr>], only_memberships [alice\<lparr>om_ID := []\<rparr>],
            only_membership (alice\<lparr>om_ID := [], om_Role := ''ADMIN''\<rparr>)])
           ''https://cloud.langfuse.com'')
        ([], alicePlan ''ADMIN'') emptyResponse [])))
     = Some (StringValue ''u-42'')
   \<and> map_option mm_ID (State (fst (organizationMembershipResource_Create
        (implFactory (scriptedRemote
           [only_memberships [],
            only_scimUser \<lparr>su_ID = ''u-42'', su_UserName = ''alice@example.com'',
                           su_Emails = [(''alice@example.com'', True)], su_Active = True\<rparr>,
            only_memberships [alice], only_memberships [alice],
            only_membership (alice\<lparr>om_ID := [], om_Role := ''ADMIN''\<rparr>)])
           ''https://cloud.langfuse.com'')
        ([], alicePlan ''ADMIN'') emptyResponse [])))
     = Some (StringValue ''m-1'')"
proof -
  have valid: "isValidRole (ValueString (mm_Role (alicePlan ''ADMIN'')))"
    by (simp add: alicePlan_def isValidRole_def validRoles_def)
  note evals = remote_evals putMembership_def spec_fallback_id_def emptyResponse_def
    HasError_def alice_def alicePlan_def aliceState_def
  note T = membership_identifier_resolution[OF refl refl refl refl refl valid refl refl refl,
      where h = "''https://cloud.langfuse.com''" and ds = "[]" and ds' = "[]" and w = "[]"
      and resp = "emptyResponse :: organizationMembershipResourceModel response"]
  have a: "map_option mm_ID (State (fst (organizationMembershipResource_Read
        (implFactory (scriptedRemote [only_memberships [alice\<lparr>om_ID := []\<rparr>]])
           ''https://cloud.langfuse.com'')
        ([], aliceState ''u-42'') emptyResponse [])))
     = Some (StringValue ''u-42'')"
    using T[where rem = "scriptedRemote [only_memberships [alice\<lparr>om_ID := []\<rparr>]]"
        and state = "aliceState ''u-42''", THEN conjunct1]
    by (simp add: evals)
  have b: "map_option mm_ID (State (fst (organizationMembershipResource_Update
        (implFactory (scriptedRemote
           [only_memberships [alice\<lparr>om_ID := []\<rparr>],
            only_membership (alice\<lparr>om_ID := [], om_Role := ''ADMIN''\<rparr>)])
           ''https://cloud.langfuse.com'')
        ([], alicePlan ''ADMIN'') ([], aliceState ''u-42'') emptyResponse [])))
     = Some (StringValue ''u-42'')"
    using T[where rem = "scriptedRemote
           [only_memberships [alice\<lparr>om_ID := []\<rparr>],
            only_membership (alice\<lparr>om_ID := [], om_Role := ''ADMIN''\<rparr>)]"
        and state = "aliceState ''u-42''", THEN conjunct2, THEN conjunct1]
    by (simp add: evals)
  have c: "map_option mm_ID (State (fst (organizationMembershipResource_Update
        (implFactory (scriptedRemote
           [only_memberships [alice],
            only_membership (alice\<lparr>om_ID := ''m-9'', om_Role := ''ADMIN''\<rparr>)])
           ''https://cloud.langfuse.com'')
        ([], alicePlan ''ADMIN'') ([], aliceState ''m-1'') emptyResponse [])))
     = Some (StringValue ''m-9'')"
    using T[where rem = "scriptedRemote
           [only_memberships [alice],
            only_membership (alice\<lparr>om_ID := ''m-9'', om_Role := ''ADMIN''\<rparr>)]"
        and state = "aliceState ''m-1''", THEN conjunct2, THEN conjunct1]
    by (simp add: evals)
  have d: "map_option mm_ID (State (fst (organizationMembershipResource_Create
        (implFactory (scriptedRemote
           [only_memberships [alice\<lparr>om_ID := []\<rparr>], only_memberships [alice\<lparr>om_ID := []\<rparr>],
            only_membership (alice\<lparr>om_ID := [], om_Role := ''ADMIN''\<rparr>)])
           ''https://cloud.langfuse.com'')
        ([], alicePlan ''ADMIN'') emptyResponse [])))
     = Some (StringValue ''u-42'')"
    using T[where rem = "scriptedRemote
           [only_memberships [alice\<lparr>om_ID := []\<rparr>], only_memberships [alice\<lparr>om_ID := []\<rparr>],
            only_membership (alice\<lparr>om_ID := [], om_Role := ''ADMIN''\<rparr>)]"
        and state = "aliceState ''u-42''", THEN conjunct2, THEN conjunct2, THEN conjunct1]
    by (simp add: evals)
  have e: "map_option mm_ID (State (fst (organizationMembershipResource_Create
        (implFactory (scriptedRemote
           [only_memberships [],
            only_scimUser \<lparr>su_ID = ''u-42'', su_UserName = ''alice@example.com'',
                           su_Emails = [(''alice@example.com'', True)], su_Active = True\<rparr>,
            only_memberships [alice], only_memberships [alice],
            only_membership (alice\<lparr>om_ID := [], om_Role := ''ADMIN''\<rparr>)])
           ''https://cloud.langfuse.com'')
        ([], alicePlan ''ADMIN'') emptyResponse [])))
     = Some (StringValue ''m-1'')"
    using T[where rem = "scriptedRemote
           [only_memberships [],
            only_scimUser \<lparr>su_ID = ''u-42'', su_UserName = ''alice@example.com'',
                           su_Emails = [(''alice@example.com'', True)], su_Active = True\<rparr>,
            only_memberships [alice], only_memberships [alice],
            only_membership (alice\<lparr>om_ID := [], om_Role := ''ADMIN''\<rparr>)]"
        and state = "aliceState ''u-42''", THEN conjunct2, THEN conjunct2, THEN conjunct2]
    by (simp add: evals)
  from a b c d e show ?thesis by simp
qed

section \<open>Membership: Update resolves the user before the role update\<close>

text \<open>
  Claim C8, where the code differs. The user identifier of the role update is the one of
  the listed membership, and nothing makes it non-empty: when the remote lists the
  record's membership without a user identifier, the \<^verbatim>\<open>PUT\<close> request carries an empty one.
\<close>

theorem update_user_id_counterexample:
  "map rq_body (snd (organizationMembershipResource_Update
      (implFactory (scriptedRemote
          [only_memberships [alice\<lparr>om_UserID := []\<rparr>],
           only_membership (alice\<lparr>om_UserID := [], om_Role := ''ADMIN''\<rparr>)])
         ''https://cloud.langfuse.com'')
      ([], alicePlan ''ADMIN'') ([], aliceState ''m-1'')
      \<lparr>Diagnostics = [], State = Some (aliceState ''m-1'')\<rparr> []))
   = [NoBody, UpdateMembershipBody \<lparr>um_UserID = [], um_Email = [], um_Role = ''ADMIN''\<rparr>]"
  by (simp add: organizationMembershipResource_Update_def remote_evals adapter_evals
      alice_def alicePlan_def aliceState_def)

text \<open>
  Claim C8, as amended. Membership Update (plan and state read without errors, valid
  role) first sends the \<^verbatim>\<open>GET\<close> request that lists the memberships. When the list is
  decoded and no listed membership has the record's identifier as its \<^verbatim>\<open>ID\<close> or \<^verbatim>\<open>UserID\<close>,
  nothing else is sent, Update ends with an error and the record is unchanged. When
  \<open>current\<close> is the first such membership and the request can be built, the requests
  sent are exactly that \<^verbatim>\<open>GET\<close> and then one \<^verbatim>\<open>PUT\<close>, whose body carries the \<^verbatim>\<open>UserID\<close> of
  \<open>current\<close> and the declared role and nothing else (the adapter itself supplied an empty
  user identifier).
\<close>

theorem update_resolves_user_id:
  assumes pre: "\<not> HasError (Append (Append (Diagnostics resp) ds) ds')"
               "isValidRole (ValueString (mm_Role plan))"
    and c: "c = NewOrganizationClient h (ValueString (mm_OrganizationPublicKey state))
                  (ValueString (mm_OrganizationPrivateKey state))"
    and listed: "makeRequest rem c ''GET'' ''api/public/organizations/memberships'' NoBody w
                   = (Inr answer, w1)"
    and answer: "as_listMembershipsResponse answer = Inr memberships"
    and updated: "updated = organizationMembershipResource_Update (implFactory rem h)
                              (ds, plan) (ds', state) resp w"
    and get: "get = \<lparr>rq_method = ''GET'', rq_host = h,
                     rq_path = ''api/public/organizations/memberships'',
                     rq_username = publicKey c, rq_password = privateKey c, rq_body = NoBody\<rparr>"
  shows "(find (\<lambda>m. om_ID m = ValueString (mm_ID state)
                     \<or> om_UserID m = ValueString (mm_ID state)) memberships = None \<longrightarrow>
            snd updated = w @ [get]
            \<and> HasError (Diagnostics (fst updated)) \<and> State (fst updated) = State resp)
       \<and> (\<forall>current request.
            find (\<lambda>m. om_ID m = ValueString (mm_ID state)
                      \<or> om_UserID m = ValueString (mm_ID state)) memberships = Some current
            \<and> request = \<lparr>um_UserID = om_UserID current, um_Email = [],
                          um_Role = ValueString (mm_Role plan)\<rparr>
            \<and> build_error rem ''PUT'' h ''api/public/organizations/memberships''
                  (UpdateMembershipBody request) = None \<longrightarrow>
            snd updated
              = w @ [get,
                     \<lparr>rq_method = ''PUT'', rq_host = h,
                      rq_path = ''api/public/organizations/memberships'',
                      rq_username = publicKey c, rq_password = privateKey c,
                      rq_body = UpdateMembershipBody request\<rparr>])"
proof -
  have w1: "w1 = w @ [get]"
    using makeRequest_sent[OF listed] unfolding get by (simp add: c NewOrganizationClient_def)
  have hc: "host c = h" by (simp add: c NewOrganizationClient_def)
  note unf = Update_valid[OF pre, of "implFactory rem h" state w,
      unfolded clientFor_def[symmetric] clientFor_impl c[symmetric]]
  show ?thesis
  proof (intro conjI impI allI)
    assume absent: "find (\<lambda>m. om_ID m = ValueString (mm_ID state)
                     \<or> om_UserID m = ValueString (mm_ID state)) memberships = None"
    have eq: "updated = (AddError ''Error updating membership''
        (''failed to get current membership: '' @ ''cannot find membership with ID ''
           @ ValueString (mm_ID state)) (AppendDiags ds' (AppendDiags ds resp)), w1)"
      unfolding updated unf
      by (simp add: implClient_def impl_UpdateMembership_def
          impl_GetMembership_absent[OF listed answer absent])
    show "snd updated = w @ [get]" by (simp add: eq w1)
    show "HasError (Diagnostics (fst updated))" by (simp add: eq HasError_AddError)
    show "State (fst updated) = State resp" by (simp add: eq State_AddError State_AppendDiags)
  next
    fix current request
    assume h: "find (\<lambda>m. om_ID m = ValueString (mm_ID state)
                      \<or> om_UserID m = ValueString (mm_ID state)) memberships = Some current
            \<and> request = \<lparr>um_UserID = om_UserID current, um_Email = [],
                          um_Role = ValueString (mm_Role plan)\<rparr>
            \<and> build_error rem ''PUT'' h ''api/public/organizations/memberships''
                  (UpdateMembershipBody request) = None"
    then have found: "find (\<lambda>m. om_ID m = ValueString (mm_ID state)
                      \<or> om_UserID m = ValueString (mm_ID state)) memberships = Some current"
      and request: "\<lparr>um_UserID = om_UserID current, um_Email = [],
                          um_Role = ValueString (mm_Role plan)\<rparr> = request"
      and built: "build_error rem ''PUT'' (host c) ''api/public/organizations/memberships''
                  (UpdateMembershipBody request) = None"
      by (auto simp: hc)
    have "snd (impl_UpdateMembership rem c (ValueString (mm_ID state))
                 \<lparr>um_UserID = [], um_Email = [], um_Role = ValueString (mm_Role plan)\<rparr> w)
          = snd (makeRequest rem c ''PUT'' ''api/public/organizations/memberships''
                   (UpdateMembershipBody request) w1)"
      by (simp add: impl_UpdateMembership_def impl_GetMembership_found[OF listed answer found]
          request split: prod.splits sum.splits)
    also have "\<dots> = w1 @ [\<lparr>rq_method = ''PUT'', rq_host = host c,
                      rq_path = ''api/public/organizations/memberships'',
                      rq_username = publicKey c, rq_password = privateKey c,
                      rq_body = UpdateMembershipBody request\<rparr>]"
      by (rule makeRequest_built[OF built])
    finally have sent: "snd (impl_UpdateMembership rem c (ValueString (mm_ID state))
                 \<lparr>um_UserID = [], um_Email = [], um_Role = ValueString (mm_Role plan)\<rparr> w)
          = w1 @ [\<lparr>rq_method = ''PUT'', rq_host = host c,
                      rq_path = ''api/public/organizations/memberships'',
                      rq_username = publicKey c, rq_password = privateKey c,
                      rq_body = UpdateMembershipBody request\<rparr>]" .
    have "snd updated = snd (impl_UpdateMembership rem c (ValueString (mm_ID state))
                 \<lparr>um_UserID = [], um_Email = [], um_Role = ValueString (mm_Role plan)\<rparr> w)"
      unfolding updated unf by (simp add: implClient_def split: prod.splits sum.splits)
    then show "snd updated
              = w @ [get,
                     \<lparr>rq_method = ''PUT'', rq_host = h,
                      rq_path = ''api/public/organizations/memberships'',
                      rq_username = publicKey c, rq_password = privateKey c,
                      rq_body = UpdateMembershipBody request\<rparr>]"
      by (simp add: sent w1 hc)
  qed
qed


theorem update_resolves_user_id_witness:
  "snd (organizationMembershipResource_Update
      (implFactory (scriptedRemote
          [only_memberships [alice], only_membership (alice\<lparr>om_Role := ''ADMIN''\<rparr>)])
         ''https://cloud.langfuse.com'')
      ([], alicePlan ''ADMIN'') ([], aliceState ''m-1'')
      \<lparr>Diagnostics = [], State = Some (aliceState ''m-1'')\<rparr> [])
   = [\<lparr>rq_method = ''GET'', rq_host = ''https://cloud.langfuse.com'',
       rq_path = ''api/public/organizations/memberships'',
       rq_username = ''pk-1'', rq_password = ''sk-1'', rq_body = NoBody\<rparr>,
      \<lparr>rq_method = ''PUT'', rq_host = ''https://cloud.langfuse.com'',
       rq_path = ''api/public/organizations/memberships'',
       rq_username = ''pk-1'', rq_password = ''sk-1'',
       rq_body = UpdateMembershipBody
         \<lparr>um_UserID = ''u-42'', um_Email = [], um_Role = ''ADMIN''\<rparr>\<rparr>]"
proof -
  let ?rem = "scriptedRemote
          [only_memberships [alice], only_membership (alice\<lparr>om_Role := ''ADMIN''\<rparr>)]"
  let ?resp = "\<lparr>Diagnostics = [], State = Some (aliceState ''m-1'')\<rparr>"
  let ?c = "NewOrganizationClient ''https://cloud.langfuse.com''
              (ValueString (mm_OrganizationPublicKey (aliceState ''m-1'')))
              (ValueString (mm_OrganizationPrivateKey (aliceState ''m-1'')))"
  let ?get = "\<lparr>rq_method = ''GET'', rq_host = ''https://cloud.langfuse.com'',
       rq_path = ''api/public/organizations/memberships'',
       rq_username = ''pk-1'', rq_password = ''sk-1'', rq_body = NoBody\<rparr>"
  have pre1: "\<not> HasError (Append (Append (Diagnostics ?resp) []) [])"
    by (simp add: HasError_def)
  have pre2: "isValidRole (ValueString (mm_Role (alicePlan ''ADMIN'')))"
    by (simp add: alicePlan_def isValidRole_def validRoles_def)
  have listed: "makeRequest ?rem ?c ''GET'' ''api/public/organizations/memberships'' NoBody []
                  = (Inr (only_memberships [alice]), [?get])"
    by (simp add: makeRequest_def scriptedRemote_def NewOrganizationClient_def aliceState_def)
  have answer: "as_listMembershipsResponse (only_memberships [alice]) = Inr [alice]"
    by (simp add: only_memberships_def)
  have found: "find (\<lambda>m. om_ID m = ValueString (mm_ID (aliceState ''m-1''))
                      \<or> om_UserID m = ValueString (mm_ID (aliceState ''m-1''))) [alice]
                 = Some alice"
    by (simp add: alice_def aliceState_def)
  have built: "build_error ?rem ''PUT'' ''https://cloud.langfuse.com''
                 ''api/public/organizations/memberships'' body = None" for body
    by (simp add: scriptedRemote_def)
  note T = update_resolves_user_id[OF pre1 pre2 refl listed answer refl refl]
  from T found built show ?thesis
    by (simp add: alice_def alicePlan_def aliceState_def NewOrganizationClient_def)
qed

section \<open>Membership: an invalid role is refused locally\<close>

text \<open>
  Claim C9. Membership Create and Update with a role outside
  \<^verbatim>\<open>OWNER\<close>, \<^verbatim>\<open>ADMIN\<close>, \<^verbatim>\<open>MEMBER\<close>, \<^verbatim>\<open>VIEWER\<close> fail locally: the response gets the one error
  \<^verbatim>\<open>Invalid Role\<close>, whose detail lists the allowed roles and the invalid value, the state of
  the response is untouched, the world is unchanged and the log of calls through the
  gateway interface stays empty, whatever the client factory. (The plan, and for Update
  the prior state, are read without errors.)
\<close>

theorem invalid_role_is_local:
  assumes "ValueString (mm_Role plan) \<notin> {''OWNER'', ''ADMIN'', ''MEMBER'', ''VIEWER''}"
    and "invalid = Diagnostic SeverityError ''Invalid Role''
           (''Role must be one of: OWNER, ADMIN, MEMBER, VIEWER. Got: '' @ ValueString (mm_Role plan))"
  shows "(\<not> HasError (Append (Diagnostics resp) ds) \<longrightarrow>
            organizationMembershipResource_Create (recordingFactory f) (ds, plan) resp (w, [])
              = (resp\<lparr>Diagnostics := Append (Diagnostics resp) ds @ [invalid]\<rparr>, (w, [])))
       \<and> (\<not> HasError (Append (Append (Diagnostics resp) ds) ds') \<longrightarrow>
            organizationMembershipResource_Update (recordingFactory f) (ds, plan) (ds', state) resp (w, [])
              = (resp\<lparr>Diagnostics := Append (Append (Diagnostics resp) ds) ds' @ [invalid]\<rparr>, (w, [])))"
proof -
  have bad: "\<not> isValidRole (ValueString (mm_Role plan))"
    using assms(1) by (simp only: isValidRole_iff not_False_eq_True)
  have inv: "invalid = Diagnostic SeverityError ''Invalid Role''
               (invalidRoleDetail (ValueString (mm_Role plan)))"
    by (simp only: assms(2) invalidRoleDetail_eq)
  have add: "\<not> HasError (Diagnostics rsp) \<Longrightarrow>
      AddError ''Invalid Role'' (invalidRoleDetail (ValueString (mm_Role plan))) rsp
        = rsp\<lparr>Diagnostics := Diagnostics rsp @ [invalid]\<rparr>"
    for rsp :: "organizationMembershipResourceModel response"
    unfolding inv AddError_def using Append_error_fresh[of "Diagnostics rsp"] by simp
  show ?thesis
  proof (intro conjI impI)
    assume ne: "\<not> HasError (Append (Diagnostics resp) ds)"
    then have "\<not> HasError (Diagnostics (AppendDiags ds resp))"
      by (simp add: AppendDiags_def)
    from add[OF this] show "organizationMembershipResource_Create (recordingFactory f) (ds, plan) resp (w, [])
              = (resp\<lparr>Diagnostics := Append (Diagnostics resp) ds @ [invalid]\<rparr>, (w, []))"
      by (simp add: Create_invalid[OF ne bad] AppendDiags_def)
  next
    assume ne: "\<not> HasError (Append (Append (Diagnostics resp) ds) ds')"
    then have "\<not> HasError (Diagnostics (AppendDiags ds' (AppendDiags ds resp)))"
      by (simp add: AppendDiags_def)
    from add[OF this] show "organizationMembershipResource_Update (recordingFactory f) (ds, plan) (ds', state) resp (w, [])
              = (resp\<lparr>Diagnostics := Append (Append (Diagnostics resp) ds) ds' @ [invalid]\<rparr>, (w, []))"
      by (simp add: Update_invalid[OF ne bad] AppendDiags_def)
  qed
qed

theorem invalid_role_is_local_witness:
  "organizationMembershipResource_Create
     (recordingFactory (implFactory (scriptedRemote []) ''https://cloud.langfuse.com''))
     ([], alicePlan ''SUPER_ADMIN'') emptyResponse ([], [])
   = (\<lparr>Diagnostics = [Diagnostic SeverityError ''Invalid Role''
         ''Role must be one of: OWNER, ADMIN, MEMBER, VIEWER. Got: SUPER_ADMIN''],
       State = None\<rparr>, ([], []))
   \<and> organizationMembershipResource_Update
     (recordingFactory (implFactory (scriptedRemote []) ''https://cloud.langfuse.com''))
     ([], alicePlan ''SUPER_ADMIN'') ([], aliceState ''m-1'')
     \<lparr>Diagnostics = [], State = Some (aliceState ''m-1'')\<rparr> ([], [])
   = (\<lparr>Diagnostics = [Diagnostic SeverityError ''Invalid Role''
         ''Role must be one of: OWNER, ADMIN, MEMBER, VIEWER. Got: SUPER_ADMIN''],
       State = Some (aliceState ''m-1'')\<rparr>, ([], []))"
proof -
  have bad: "ValueString (mm_Role (alicePlan ''SUPER_ADMIN''))
               \<notin> {''OWNER'', ''ADMIN'', ''MEMBER'', ''VIEWER''}"
    by (simp add: alicePlan_def)
  have pre: "\<not> HasError (Append (Diagnostics
                (emptyResponse :: organizationMembershipResourceModel response)) [])"
       "\<not> HasError (Append (Append (Diagnostics
                \<lparr>Diagnostics = [], State = Some (aliceState ''m-1'')\<rparr>) []) [])"
    by (simp_all add: emptyResponse_def HasError_def)
  note T = invalid_role_is_local[OF bad refl, where ds = "[]" and ds' = "[]" and w = "[]"
      and f = "implFactory (scriptedRemote []) ''https://cloud.langfuse.com''"
      and state = "aliceState ''m-1''"]
  from T[where resp = emptyResponse] pre(1)
  have c: "organizationMembershipResource_Create
     (recordingFactory (implFactory (scriptedRemote []) ''https://cloud.langfuse.com''))
     ([], alicePlan ''SUPER_ADMIN'') emptyResponse ([], [])
   = (\<lparr>Diagnostics = [Diagnostic SeverityError ''Invalid Role''
         ''Role must be one of: OWNER, ADMIN, MEMBER, VIEWER. Got: SUPER_ADMIN''],
       State = None\<rparr>, ([], []))"
    by (simp add: emptyResponse_def alicePlan_def)
  from T[where resp = "\<lparr>Diagnostics = [], State = Some (aliceState ''m-1'')\<rparr>"] pre(2)
  have u: "organizationMembershipResource_Update
     (recordingFactory (implFactory (scriptedRemote []) ''https://cloud.langfuse.com''))
     ([], alicePlan ''SUPER_ADMIN'') ([], aliceState ''m-1'')
     \<lparr>Diagnostics = [], State = Some (aliceState ''m-1'')\<rparr> ([], [])
   = (\<lparr>Diagnostics = [Diagnostic SeverityError ''Invalid Role''
         ''Role must be one of: OWNER, ADMIN, MEMBER, VIEWER. Got: SUPER_ADMIN''],
       State = Some (aliceState ''m-1'')\<rparr>, ([], []))"
    by (simp add: alicePlan_def)
  from c u show ?thesis by (rule conjI)
qed

section \<open>Membership: Create stores nothing when a call fails\<close>

text \<open>
  Claim C10. Membership Create is atomic on failure. Whenever Create ends with an error in
  its diagnostics, the state of the response is the one it was given: nothing was stored.
  And each failing remote call ends Create with an error: the first listing of the
  memberships, the creation of the SCIM user, the listing after that creation, a second
  listing without a membership of the new user, and the role update (on the path of a new
  user and on the path of an existing membership). Here \<open>c\<close> is the client the factory makes
  for the plan's key pair, and the plan is read without errors and has a valid role.
\<close>

theorem create_atomic_on_failure:
  assumes c: "c = cf_NewOrganizationClient r (ValueString (mm_OrganizationPublicKey plan))
                    (ValueString (mm_OrganizationPrivateKey plan))"
    and email: "email = ValueString (mm_Email plan)"
    and role: "role = ValueString (mm_Role plan)"
    and scim: "scimRequest = \<lparr>sq_UserName = email, sq_Emails = [(email, True)],
                              sq_Password = [], sq_Active = True\<rparr>"
    and res: "res = fst (organizationMembershipResource_Create r (ds, plan) resp w)"
    and pre: "\<not> HasError (Append (Diagnostics resp) ds)" "isValidRole role"
  shows "(HasError (Diagnostics res) \<longrightarrow> State res = State resp)
    \<and> (\<forall>err w1. ListMemberships c w = (Inl err, w1) \<longrightarrow> HasError (Diagnostics res))
    \<and> (\<forall>ms w1. ListMemberships c w = (Inr ms, w1) \<and> find (\<lambda>m. om_Email m = email) ms = None \<longrightarrow>
          (\<forall>err w2. CreateSCIMUser c scimRequest w1 = (Inl err, w2) \<longrightarrow> HasError (Diagnostics res))
        \<and> (\<forall>scimUser w2. CreateSCIMUser c scimRequest w1 = (Inr scimUser, w2) \<longrightarrow>
              (\<forall>err w3. ListMemberships c w2 = (Inl err, w3) \<longrightarrow> HasError (Diagnostics res))
            \<and> (\<forall>ms2 w3. ListMemberships c w2 = (Inr ms2, w3) \<longrightarrow>
                  (find (\<lambda>m. om_UserID m = su_ID scimUser) ms2 = None \<longrightarrow>
                     HasError (Diagnostics res))
                \<and> (\<forall>newMembership err w4.
                      find (\<lambda>m. om_UserID m = su_ID scimUser) ms2 = Some newMembership
                      \<and> UpdateMembership c (om_ID newMembership)
                            \<lparr>um_UserID = su_ID scimUser, um_Email = [], um_Role = role\<rparr> w3
                          = (Inl err, w4) \<longrightarrow> HasError (Diagnostics res)))))
    \<and> (\<forall>ms w1 existingMembership err w2.
          ListMemberships c w = (Inr ms, w1)
          \<and> find (\<lambda>m. om_Email m = email) ms = Some existingMembership
          \<and> UpdateMembership c (om_ID existingMembership)
                \<lparr>um_UserID = om_UserID existingMembership, um_Email = [], um_Role = role\<rparr> w1
              = (Inl err, w2) \<longrightarrow> HasError (Diagnostics res))"
proof -
  have valid: "isValidRole (ValueString (mm_Role plan))"
    using pre(2) role by simp
  note unf = Create_valid[OF pre(1) valid, of r w, unfolded Let_def,
      folded c email role, folded scim]
  have keep: "HasError (Diagnostics res) \<longrightarrow> State res = State resp"
    unfolding res by (simp add: Create_error_keeps_state)
  show ?thesis
    using keep unfolding res unf by (auto simp: HasError_AddError)
qed

theorem create_atomic_on_failure_witness:
  "HasError (Diagnostics (fst (organizationMembershipResource_Create
       (implFactory (scriptedRemote []) ''https://cloud.langfuse.com'')
       ([], alicePlan ''ADMIN'') emptyResponse [])))
   \<and> State (fst (organizationMembershipResource_Create
       (implFactory (scriptedRemote []) ''https://cloud.langfuse.com'')
       ([], alicePlan ''ADMIN'') emptyResponse [])) = None"
proof -
  let ?f = "implFactory (scriptedRemote []) ''https://cloud.langfuse.com''"
  let ?c = "cf_NewOrganizationClient ?f
              (ValueString (mm_OrganizationPublicKey (alicePlan ''ADMIN'')))
              (ValueString (mm_OrganizationPrivateKey (alicePlan ''ADMIN'')))"
  let ?res = "fst (organizationMembershipResource_Create ?f
                ([], alicePlan ''ADMIN'') emptyResponse [])"
  have pre1: "\<not> HasError (Append (Diagnostics
                (emptyResponse :: organizationMembershipResourceModel response)) [])"
    by (simp add: emptyResponse_def HasError_def)
  have pre2: "isValidRole (ValueString (mm_Role (alicePlan ''ADMIN'')))"
    by (simp add: alicePlan_def isValidRole_def validRoles_def)
  have list: "ListMemberships ?c [] =
     (Inl ''failed to make request: connection refused'',
      [\<lparr>rq_method = ''GET'', rq_host = ''https://cloud.langfuse.com'',
        rq_path = ''api/public/organizations/memberships'',
        rq_username = ''pk-1'', rq_password = ''sk-1'', rq_body = NoBody\<rparr>])"
    by (simp add: implFactory_def implClient_def impl_ListMemberships_def makeRequest_def
        scriptedRemote_def NewOrganizationClient_def alicePlan_def)
  note T = create_atomic_on_failure[where r = ?f and w = "[]" and ds = "[]"
      and plan = "alicePlan ''ADMIN''"
      and resp = "emptyResponse :: organizationMembershipResourceModel response",
      OF refl refl refl refl refl pre1 pre2]
  from T list have e: "HasError (Diagnostics ?res)"
    by blast
  with T have "State ?res
      = State (emptyResponse :: organizationMembershipResourceModel response)"
    by blast
  with e show ?thesis
    by (simp add: emptyResponse_def)
qed

end
